theory Spec2Isabelle
  imports Complex_Main
begin

section \<open>The Web Audio objects held by the engine\<close>

text \<open>
  The engine of \<^verbatim>\<open>src/services/audioEngine.ts\<close> is a class over the browser's Web Audio
  interface. JavaScript numbers are modelled as reals (no rounding, no NaN), and the
  engine clock \<^verbatim>\<open>context.currentTime\<close> is an argument \<open>now\<close> of every operation that
  reads it. Every node created by the context gets a fresh identifier, so that a rebuilt
  graph can be told from the previous one; connections are pairs of identifiers.
\<close>

datatype context_state = Suspended | Running | Closed

datatype error = ContextNotSupported | DecodeFailed | RangeError | TypeError

record audio_buffer =
  duration :: real

record audio_param =
  param_value :: real
  automation :: "(real \<times> real \<times> real) list"
    \<comment> \<open>the \<^verbatim>\<open>setTargetAtTime(target, startTime, timeConstant)\<close> requests, oldest first\<close>

datatype biquad_type = Lowpass | Highpass

record biquad_filter_node =
  filter_id :: nat
  filter_type :: biquad_type
  frequency :: audio_param

record gain_node =
  gain_id :: nat
  gain :: audio_param

record analyser_node =
  analyser_id :: nat
  fftSize :: nat
  smoothingTimeConstant :: real

record source_node =
  source_id :: nat
  source_buffer :: "audio_buffer option"
  started :: "(real \<times> real) option"
    \<comment> \<open>the arguments \<open>(when, offset)\<close> of \<^verbatim>\<open>start\<close>, once it was called\<close>

record audio_context =
  state :: context_state
  allocated :: nat
  connections :: "(nat \<times> nat) list"

definition destination :: nat where
  "destination = 0"

definition new_AudioContext :: "context_state \<Rightarrow> audio_context" where
  "new_AudioContext st = \<lparr>state = st, allocated = 1, connections = []\<rparr>"

definition resume :: "audio_context \<Rightarrow> audio_context" where
  "resume c = c\<lparr>state := Running\<rparr>"

definition createBufferSource :: "audio_context \<Rightarrow> source_node \<times> audio_context" where
  "createBufferSource c =
     (\<lparr>source_id = allocated c, source_buffer = None, started = None\<rparr>,
      c\<lparr>allocated := Suc (allocated c)\<rparr>)"

definition createGain :: "audio_context \<Rightarrow> gain_node \<times> audio_context" where
  "createGain c =
     (\<lparr>gain_id = allocated c, gain = \<lparr>param_value = 1, automation = []\<rparr>\<rparr>,
      c\<lparr>allocated := Suc (allocated c)\<rparr>)"

definition createAnalyser :: "audio_context \<Rightarrow> analyser_node \<times> audio_context" where
  "createAnalyser c =
     (\<lparr>analyser_id = allocated c, fftSize = 2048, smoothingTimeConstant = 8 / 10\<rparr>,
      c\<lparr>allocated := Suc (allocated c)\<rparr>)"

definition createBiquadFilter :: "audio_context \<Rightarrow> biquad_filter_node \<times> audio_context" where
  "createBiquadFilter c =
     (\<lparr>filter_id = allocated c, filter_type = Lowpass,
       frequency = \<lparr>param_value = 350, automation = []\<rparr>\<rparr>,
      c\<lparr>allocated := Suc (allocated c)\<rparr>)"

definition connect :: "nat \<Rightarrow> nat \<Rightarrow> audio_context \<Rightarrow> audio_context" where
  "connect a b c = c\<lparr>connections := connections c @ [(a, b)]\<rparr>"

definition disconnect :: "nat \<Rightarrow> audio_context \<Rightarrow> audio_context" where
  "disconnect a c = c\<lparr>connections := filter (\<lambda>e. fst e \<noteq> a) (connections c)\<rparr>"

text \<open>
  \<^verbatim>\<open>setTargetAtTime(float target, double startTime, float timeConstant)\<close>. An argument
  declared \<^verbatim>\<open>float\<close> is converted to single precision, and the conversion throws a
  TypeError when the number is too large for it: when it is nearer to \<open>2 ^ 128\<close> than to
  the largest single-precision number \<open>2 ^ 128 - 2 ^ 104\<close>, or half-way. The engine passes
  its clock as the start time and the constant 0.1 as the time constant, so the target is
  the one argument a caller decides. (The rounding of an accepted target to single
  precision is not modelled: numbers are reals.)
\<close>

definition float_range :: "real \<Rightarrow> bool" where
  "float_range x \<longleftrightarrow> \<bar>x\<bar> < 2 ^ 128 - 2 ^ 103"

definition setTargetAtTime ::
  "real \<Rightarrow> real \<Rightarrow> real \<Rightarrow> audio_param \<Rightarrow> error + audio_param" where
  "setTargetAtTime target startT timeConstant p =
     (if float_range target
      then Inr (p\<lparr>automation := automation p @ [(target, startT, timeConstant)]\<rparr>)
      else Inl TypeError)"

definition frequencyBinCount :: "analyser_node \<Rightarrow> nat" where
  "frequencyBinCount a = fftSize a div 2"

section \<open>The engine\<close>

record engine =
  ctx :: "audio_context option"
  buffer :: "audio_buffer option"
  sourceNode :: "source_node option"
  masterGain :: "gain_node option"
  analyser :: "analyser_node option"
  lowFilter :: "biquad_filter_node option"
  midLowFilter :: "biquad_filter_node option"
  midHighFilter :: "biquad_filter_node option"
  highFilter :: "biquad_filter_node option"
  lowGain :: "gain_node option"
  midGain :: "gain_node option"
  highGain :: "gain_node option"
  startTime :: real
  pausedAt :: real
  isPlaying :: bool

text \<open>
  An operation either returns or throws; in both cases it leaves an engine behind (the
  engine is a process-wide singleton, so the fields written before a throw stay written).
\<close>

datatype outcome = Returned engine | Raised error engine

fun engine_of :: "outcome \<Rightarrow> engine" where
  "engine_of (Returned s) = s"
| "engine_of (Raised e s) = s"

fun failure :: "outcome \<Rightarrow> error option" where
  "failure (Returned s) = None"
| "failure (Raised e s) = Some e"

datatype band = Low | Mid | High

datatype decode_result = Decoded audio_buffer | Undecodable

text \<open>
  The constructor: \<open>AudioEngine None\<close> is a browser without an AudioContext class,
  \<open>AudioEngine (Some st)\<close> one whose new context starts in state \<open>st\<close>.
\<close>

definition AudioEngine :: "context_state option \<Rightarrow> engine" where
  "AudioEngine w =
     \<lparr>ctx = map_option new_AudioContext w, buffer = None, sourceNode = None,
      masterGain = None, analyser = None, lowFilter = None, midLowFilter = None,
      midHighFilter = None, highFilter = None, lowGain = None, midGain = None,
      highGain = None, startTime = 0, pausedAt = 0, isPlaying = False\<rparr>"

definition getContext :: "engine \<Rightarrow> audio_context option" where
  "getContext s = ctx s"

text \<open>
  \<^verbatim>\<open>play()\<close>. The only call of the body that can throw on values the engine itself
  passes is \<^verbatim>\<open>sourceNode.start(0, offset)\<close>: the Web Audio interface answers a negative
  offset with a RangeError. By then the nodes are created, configured, connected and
  stored in the fields; \<^verbatim>\<open>startTime\<close> and \<^verbatim>\<open>isPlaying\<close> are not yet written.
\<close>

definition play :: "real \<Rightarrow> engine \<Rightarrow> outcome" where
  "play now s =
    (case ctx s of None \<Rightarrow> Returned s | Some c0 \<Rightarrow>
     (case buffer s of None \<Rightarrow> Returned s | Some b \<Rightarrow>
      let c = (if state c0 = Suspended then resume c0 else c0) in
      if isPlaying s then Returned (s\<lparr>ctx := Some c\<rparr>)
      else
        let (src0, c) = createBufferSource c;
            src = src0\<lparr>source_buffer := Some b\<rparr>;
            (master, c) = createGain c;
            (an0, c) = createAnalyser c;
            an = an0\<lparr>fftSize := 2048, smoothingTimeConstant := 85 / 100\<rparr>;
            (lf0, c) = createBiquadFilter c;
            lf = lf0\<lparr>filter_type := Lowpass, frequency := (frequency lf0)\<lparr>param_value := 250\<rparr>\<rparr>;
            (lg, c) = createGain c;
            (mlf0, c) = createBiquadFilter c;
            mlf = mlf0\<lparr>filter_type := Highpass, frequency := (frequency mlf0)\<lparr>param_value := 250\<rparr>\<rparr>;
            (mhf0, c) = createBiquadFilter c;
            mhf = mhf0\<lparr>filter_type := Lowpass, frequency := (frequency mhf0)\<lparr>param_value := 4000\<rparr>\<rparr>;
            (mg, c) = createGain c;
            (hf0, c) = createBiquadFilter c;
            hf = hf0\<lparr>filter_type := Highpass, frequency := (frequency hf0)\<lparr>param_value := 4000\<rparr>\<rparr>;
            (hg, c) = createGain c;
            c = connect (source_id src) (filter_id lf) c;
            c = connect (source_id src) (filter_id mlf) c;
            c = connect (source_id src) (filter_id hf) c;
            c = connect (filter_id lf) (gain_id lg) c;
            c = connect (gain_id lg) (gain_id master) c;
            c = connect (filter_id mlf) (filter_id mhf) c;
            c = connect (filter_id mhf) (gain_id mg) c;
            c = connect (gain_id mg) (gain_id master) c;
            c = connect (filter_id hf) (gain_id hg) c;
            c = connect (gain_id hg) (gain_id master) c;
            c = connect (gain_id master) (analyser_id an) c;
            c = connect (analyser_id an) destination c;
            s1 = s\<lparr>ctx := Some c, sourceNode := Some src, masterGain := Some master,
                   analyser := Some an, lowFilter := Some lf, midLowFilter := Some mlf,
                   midHighFilter := Some mhf, highFilter := Some hf, lowGain := Some lg,
                   midGain := Some mg, highGain := Some hg\<rparr>;
            offset = pausedAt s
        in if offset < 0 then Raised RangeError s1
           else Returned (s1\<lparr>sourceNode := Some (src\<lparr>started := Some (0, offset)\<rparr>),
                             startTime := now - offset, isPlaying := True\<rparr>)))"

text \<open>
  \<^verbatim>\<open>pause()\<close>. The stopped source is disconnected and its reference dropped; the other
  node fields keep pointing at the nodes of the finished run. \<^verbatim>\<open>isPlaying\<close> is only ever
  set right after \<^verbatim>\<open>start\<close> has returned, so \<^verbatim>\<open>stop()\<close> finds a started source and
  returns (\<open>source_started_reachable\<close> below).
\<close>

definition pause :: "real \<Rightarrow> engine \<Rightarrow> engine" where
  "pause now s =
    (case ctx s of None \<Rightarrow> s | Some c \<Rightarrow>
     if \<not> isPlaying s then s
     else (case sourceNode s of None \<Rightarrow> s | Some src \<Rightarrow>
       let elapsed = now - startTime s
       in s\<lparr>pausedAt := elapsed, ctx := Some (disconnect (source_id src) c),
            sourceNode := None, isPlaying := False\<rparr>))"

definition stop :: "real \<Rightarrow> engine \<Rightarrow> engine" where
  "stop now s = (pause now s)\<lparr>pausedAt := 0\<rparr>"

definition seek :: "real \<Rightarrow> real \<Rightarrow> engine \<Rightarrow> outcome" where
  "seek now time s =
    (if ctx s = None \<or> buffer s = None then Returned s
     else
       let wasPlaying = isPlaying s;
           s1 = (if wasPlaying then pause now s else s);
           s2 = s1\<lparr>pausedAt := time\<rparr>
       in if wasPlaying then play now s2 else Returned s2)"

text \<open>
  \<^verbatim>\<open>setStemVolume(stem, value)\<close>. The engine checks nothing about \<open>value\<close>; the call
  throws exactly when it reaches \<^verbatim>\<open>setTargetAtTime\<close> and that throws, and then no field
  has been written.
\<close>

definition setStemVolume :: "real \<Rightarrow> band \<Rightarrow> real \<Rightarrow> engine \<Rightarrow> outcome" where
  "setStemVolume now stem v s =
    (case ctx s of None \<Rightarrow> Returned s | Some c \<Rightarrow>
     let time = now; rampTime = 1 / 10 in
     if stem = Low \<and> lowGain s \<noteq> None then
       (case lowGain s of None \<Rightarrow> Returned s | Some g \<Rightarrow>
         (case setTargetAtTime v time rampTime (gain g) of
            Inl e \<Rightarrow> Raised e s
          | Inr p \<Rightarrow> Returned (s\<lparr>lowGain := Some (g\<lparr>gain := p\<rparr>)\<rparr>)))
     else if stem = Mid \<and> midGain s \<noteq> None then
       (case midGain s of None \<Rightarrow> Returned s | Some g \<Rightarrow>
         (case setTargetAtTime v time rampTime (gain g) of
            Inl e \<Rightarrow> Raised e s
          | Inr p \<Rightarrow> Returned (s\<lparr>midGain := Some (g\<lparr>gain := p\<rparr>)\<rparr>)))
     else if stem = High \<and> highGain s \<noteq> None then
       (case highGain s of None \<Rightarrow> Returned s | Some g \<Rightarrow>
         (case setTargetAtTime v time rampTime (gain g) of
            Inl e \<Rightarrow> Raised e s
          | Inr p \<Rightarrow> Returned (s\<lparr>highGain := Some (g\<lparr>gain := p\<rparr>)\<rparr>)))
     else Returned s)"

definition getAnalyser :: "engine \<Rightarrow> analyser_node option" where
  "getAnalyser s = analyser s"

definition getCurrentTime :: "real \<Rightarrow> engine \<Rightarrow> real" where
  "getCurrentTime now s =
    (if ctx s = None \<or> \<not> isPlaying s then pausedAt s else now - startTime s)"

definition getDuration :: "engine \<Rightarrow> real" where
  "getDuration s = (case buffer s of Some b \<Rightarrow> duration b | None \<Rightarrow> 0)"

text \<open>
  \<^verbatim>\<open>loadFile(file)\<close> is asynchronous. \<open>loadFile_begin\<close> is the part before the first
  \<^verbatim>\<open>await\<close>; \<open>loadFile_finish\<close> is the \<^verbatim>\<open>try\<close> block, given what reading and decoding
  the file produced; \<open>loadFile\<close> is a load that no other call interleaves with.
\<close>

definition loadFile_begin :: "real \<Rightarrow> engine \<Rightarrow> outcome" where
  "loadFile_begin now s =
    (case ctx s of None \<Rightarrow> Raised ContextNotSupported s | Some c0 \<Rightarrow>
     let s1 = (stop now s)\<lparr>buffer := None\<rparr>
     in Returned (s1\<lparr>ctx := map_option (\<lambda>c. if state c = Suspended then resume c else c) (ctx s1)\<rparr>))"

definition loadFile_finish :: "decode_result \<Rightarrow> engine \<Rightarrow> outcome" where
  "loadFile_finish r s =
    (case r of
       Decoded audioBuffer \<Rightarrow> Returned (s\<lparr>buffer := Some audioBuffer, pausedAt := 0, startTime := 0\<rparr>)
     | Undecodable \<Rightarrow> Raised DecodeFailed s)"

definition loadFile :: "real \<Rightarrow> decode_result \<Rightarrow> engine \<Rightarrow> outcome" where
  "loadFile now r s =
    (case loadFile_begin now s of
       Raised e s1 \<Rightarrow> Raised e s1
     | Returned s1 \<Rightarrow> loadFile_finish r s1)"

section \<open>Sequences of calls\<close>

datatype api_call =
  Play | Pause | Stop | Seek real | SetStemVolume band real | LoadFile decode_result

fun perform :: "real \<Rightarrow> api_call \<Rightarrow> engine \<Rightarrow> outcome" where
  "perform now Play s = play now s"
| "perform now Pause s = Returned (pause now s)"
| "perform now Stop s = Returned (stop now s)"
| "perform now (Seek t) s = seek now t s"
| "perform now (SetStemVolume b v) s = setStemVolume now b v s"
| "perform now (LoadFile r) s = loadFile now r s"

text \<open>
  A run is a list of calls, each with the engine clock at which it is made. A call that
  throws ends that call only: the next one finds the engine as the throw left it.
\<close>

fun run :: "(real \<times> api_call) list \<Rightarrow> engine \<Rightarrow> engine" where
  "run [] s = s"
| "run ((now, c) # cs) s = run cs (engine_of (perform now c s))"

section \<open>The callers: the App component and the Visualizer\<close>

text \<open>
  The part of \<^verbatim>\<open>src/App.tsx\<close> that drives the engine: the React state it keeps beside
  the engine singleton, and its event handlers. \<open>timers\<close> holds the callbacks passed to
  \<^verbatim>\<open>setTimeout\<close> that have not run yet, each with the \<^verbatim>\<open>stemVolumes\<close> and \<^verbatim>\<open>stemMutes\<close>
  its closure captured. A handler that throws keeps the state updates it made before the
  throw, and the engine as the throw left it.
\<close>

record app =
  audioEngine :: engine
  uiFile :: bool
  uiIsPlaying :: bool
  uiCurrentTime :: real
  uiDuration :: real
  errorMsg :: "string option"
  stemVolumes :: "band \<Rightarrow> real"
  stemMutes :: "band \<Rightarrow> bool"
  timers :: "((band \<Rightarrow> real) \<times> (band \<Rightarrow> bool)) list"

definition App :: "engine \<Rightarrow> app" where
  "App e =
     \<lparr>audioEngine = e, uiFile = False, uiIsPlaying = False, uiCurrentTime = 0,
      uiDuration = 0, errorMsg = None, stemVolumes = (\<lambda>k. 1), stemMutes = (\<lambda>k. False),
      timers = []\<rparr>"

definition handleFileUpload :: "real \<Rightarrow> decode_result \<Rightarrow> app \<Rightarrow> app" where
  "handleFileUpload now r a =
    (let a1 = a\<lparr>uiFile := True, errorMsg := None\<rparr> in
     case loadFile now r (audioEngine a1) of
       Returned s \<Rightarrow>
         a1\<lparr>audioEngine := s, uiDuration := getDuration s, uiIsPlaying := False,
            uiCurrentTime := 0\<rparr>
     | Raised e s \<Rightarrow>
         a1\<lparr>audioEngine := s, uiFile := False,
            errorMsg := Some ''Failed to decode audio file. Please use WAV or high-quality MP3.''\<rparr>)"

text \<open>The body of the callback that \<^verbatim>\<open>handlePlayPause\<close> schedules 50 ms after \<^verbatim>\<open>play()\<close>:
  a \<^verbatim>\<open>forEach\<close> over the entries of \<^verbatim>\<open>stemVolumes\<close>, which a throw ends.\<close>

fun forEach_stem ::
  "real \<Rightarrow> (band \<Rightarrow> real) \<Rightarrow> (band \<Rightarrow> bool) \<Rightarrow> band list \<Rightarrow> engine \<Rightarrow> outcome" where
  "forEach_stem now vols mutes [] s = Returned s"
| "forEach_stem now vols mutes (k # ks) s =
     (case setStemVolume now k (if mutes k then 0 else vols k) s of
        Raised e s1 \<Rightarrow> Raised e s1
      | Returned s1 \<Rightarrow> forEach_stem now vols mutes ks s1)"

definition reapply_volumes ::
  "real \<Rightarrow> (band \<Rightarrow> real) \<Rightarrow> (band \<Rightarrow> bool) \<Rightarrow> engine \<Rightarrow> outcome" where
  "reapply_volumes now vols mutes s = forEach_stem now vols mutes [Low, Mid, High] s"

definition handlePlayPause :: "real \<Rightarrow> app \<Rightarrow> app" where
  "handlePlayPause now a =
    (if \<not> uiFile a then a
     else if uiIsPlaying a then
       a\<lparr>audioEngine := pause now (audioEngine a), uiIsPlaying := False\<rparr>
     else
       (case play now (audioEngine a) of
          Raised e s \<Rightarrow> a\<lparr>audioEngine := s\<rparr>
        | Returned s \<Rightarrow>
            a\<lparr>audioEngine := s, timers := timers a @ [(stemVolumes a, stemMutes a)],
              uiIsPlaying := True\<rparr>))"

definition timeout_fires :: "real \<Rightarrow> app \<Rightarrow> app" where
  "timeout_fires now a =
    (case timers a of
       [] \<Rightarrow> a
     | (vols, mutes) # rest \<Rightarrow>
         a\<lparr>audioEngine := engine_of (reapply_volumes now vols mutes (audioEngine a)),
           timers := rest\<rparr>)"

definition handleStop :: "real \<Rightarrow> app \<Rightarrow> app" where
  "handleStop now a =
     a\<lparr>audioEngine := stop now (audioEngine a), uiIsPlaying := False, uiCurrentTime := 0\<rparr>"

definition handleSeek :: "real \<Rightarrow> real \<Rightarrow> app \<Rightarrow> app" where
  "handleSeek now time a =
     a\<lparr>uiCurrentTime := time, audioEngine := engine_of (seek now time (audioEngine a))\<rparr>"

definition handleStemVolumeChange :: "real \<Rightarrow> band \<Rightarrow> real \<Rightarrow> app \<Rightarrow> app" where
  "handleStemVolumeChange now id' val a =
    (let newVols = (stemVolumes a)(id' := val);
         a1 = a\<lparr>stemVolumes := newVols\<rparr>
     in if \<not> stemMutes a id'
        then a1\<lparr>audioEngine := engine_of (setStemVolume now id' val (audioEngine a))\<rparr>
        else a1)"

definition handleStemMute :: "real \<Rightarrow> band \<Rightarrow> app \<Rightarrow> app" where
  "handleStemMute now id' a =
    (let newMutes = (stemMutes a)(id' := \<not> stemMutes a id')
     in a\<lparr>stemMutes := newMutes,
          audioEngine :=
            engine_of (setStemVolume now id' (if newMutes id' then 0 else stemVolumes a id')
                         (audioEngine a))\<rparr>)"

text \<open>
  One animation frame of \<^verbatim>\<open>src/components/Visualizer.tsx\<close>, on the analyser the effect
  fetched with \<^verbatim>\<open>getAnalyser()\<close>: \<open>None\<close> when the frame draws nothing, otherwise the
  bar heights, one per frequency bin. \<open>freq\<close> is what \<^verbatim>\<open>getByteFrequencyData\<close>
  writes into the array (the browser's data), \<open>height\<close> the canvas height.
\<close>

definition render :: "(nat \<Rightarrow> nat) \<Rightarrow> real \<Rightarrow> analyser_node option \<Rightarrow> real list option" where
  "render freq height an =
    (case an of
       None \<Rightarrow> None
     | Some a \<Rightarrow>
         let bufferLength = frequencyBinCount a;
             dataArray = map freq [0..<bufferLength]
         in Some (map (\<lambda>d. real d / 255 * height) dataArray))"

section \<open>Observations used in the statements\<close>

text \<open>The gain node of a band, and the value its gain is heading for: the target of the
  latest \<^verbatim>\<open>setTargetAtTime\<close> request, or the parameter's own value when none was made.\<close>

fun band_gain :: "band \<Rightarrow> engine \<Rightarrow> gain_node option" where
  "band_gain Low s = lowGain s"
| "band_gain Mid s = midGain s"
| "band_gain High s = highGain s"

definition heading_for :: "audio_param \<Rightarrow> real" where
  "heading_for p = (if automation p = [] then param_value p else fst (last (automation p)))"

definition applied_gain :: "band \<Rightarrow> engine \<Rightarrow> real option" where
  "applied_gain k s = map_option (\<lambda>g. heading_for (gain g)) (band_gain k s)"

definition filter_setting :: "biquad_filter_node option \<Rightarrow> (biquad_type \<times> audio_param) option" where
  "filter_setting f = map_option (\<lambda>n. (filter_type n, frequency n)) f"

text \<open>Predicates on engine states that the proofs carry through a run: the bookkeeping
  of a transport whose position is not negative at clock \<open>t\<close>; the phase in which no
  asset is loaded; and that a playing engine holds a context and a source that was
  started.\<close>

definition transport_ok :: "real \<Rightarrow> engine \<Rightarrow> bool" where
  "transport_ok t s \<longleftrightarrow>
     0 \<le> pausedAt s \<and>
     (isPlaying s \<longrightarrow> startTime s \<le> t \<and> sourceNode s \<noteq> None \<and> ctx s \<noteq> None)"

definition empty_phase :: "engine \<Rightarrow> bool" where
  "empty_phase s \<longleftrightarrow> buffer s = None \<and> \<not> isPlaying s \<and> pausedAt s = 0"

definition source_started :: "engine \<Rightarrow> bool" where
  "source_started s \<longleftrightarrow>
     (isPlaying s \<longrightarrow>
        ctx s \<noteq> None \<and> (case sourceNode s of None \<Rightarrow> False | Some src \<Rightarrow> started src \<noteq> None))"

text \<open>The calls that set the position instead of letting it run: \<^verbatim>\<open>seek\<close> to its
  target, \<^verbatim>\<open>stop\<close> and \<^verbatim>\<open>loadFile\<close> to 0.\<close>

fun sets_position :: "api_call \<Rightarrow> bool" where
  "sets_position (Seek x) = True"
| "sets_position Stop = True"
| "sets_position (LoadFile r) = True"
| "sets_position c = False"

fun seek_target_ok :: "api_call \<Rightarrow> bool" where
  "seek_target_ok (Seek x) = (0 \<le> x)"
| "seek_target_ok c = True"

section \<open>What each operation does to the fields\<close>

lemma play_pausedAt: "pausedAt (engine_of (play now s)) = pausedAt s"
  by (simp add: play_def Let_def split_def split: option.splits)

lemma play_buffer: "buffer (engine_of (play now s)) = buffer s"
  by (simp add: play_def Let_def split_def split: option.splits)

lemma play_ctx_None: "ctx (engine_of (play now s)) = None \<longleftrightarrow> ctx s = None"
  by (simp add: play_def Let_def split_def split: option.splits)

lemma play_isPlaying:
  "isPlaying (engine_of (play now s)) \<longleftrightarrow>
     isPlaying s \<or> (ctx s \<noteq> None \<and> buffer s \<noteq> None \<and> 0 \<le> pausedAt s)"
  by (auto simp add: play_def Let_def split_def split: option.splits)

lemma play_startTime:
  "startTime (engine_of (play now s)) =
     (if \<not> isPlaying s \<and> ctx s \<noteq> None \<and> buffer s \<noteq> None \<and> 0 \<le> pausedAt s
      then now - pausedAt s else startTime s)"
  by (auto simp add: play_def Let_def split_def split: option.splits)

lemma play_failure:
  "failure (play now s) =
     (if \<not> isPlaying s \<and> ctx s \<noteq> None \<and> buffer s \<noteq> None \<and> pausedAt s < 0
      then Some RangeError else None)"
  by (auto simp add: play_def Let_def split_def split: option.splits)

lemma play_sourceNode_None:
  "isPlaying s \<longrightarrow> sourceNode s \<noteq> None \<Longrightarrow>
   isPlaying (engine_of (play now s)) \<longrightarrow> sourceNode (engine_of (play now s)) \<noteq> None"
  by (auto simp add: play_def Let_def split_def split: option.splits)

lemma play_noop: "ctx s = None \<or> buffer s = None \<Longrightarrow> play now s = Returned s"
  by (auto simp add: play_def split: option.splits)

lemma play_already:
  "isPlaying s \<Longrightarrow> play now s =
     Returned (s\<lparr>ctx := (if buffer s = None then ctx s
                         else map_option (\<lambda>c. if state c = Suspended then resume c else c) (ctx s))\<rparr>)"
  by (auto simp add: play_def Let_def split: option.splits)

lemma pause_noop: "ctx s = None \<or> \<not> isPlaying s \<or> sourceNode s = None \<Longrightarrow> pause now s = s"
  by (auto simp add: pause_def split: option.splits)

lemma pause_effect:
  "ctx s = Some c \<Longrightarrow> isPlaying s \<Longrightarrow> sourceNode s = Some src \<Longrightarrow>
   pause now s = s\<lparr>pausedAt := now - startTime s, ctx := Some (disconnect (source_id src) c),
                    sourceNode := None, isPlaying := False\<rparr>"
  by (simp add: pause_def Let_def)

lemma pause_buffer: "buffer (pause now s) = buffer s"
  by (simp add: pause_def Let_def split: option.splits)

lemma pause_ctx_None: "ctx (pause now s) = None \<longleftrightarrow> ctx s = None"
  by (simp add: pause_def Let_def split: option.splits)

lemma pause_startTime: "startTime (pause now s) = startTime s"
  by (simp add: pause_def Let_def split: option.splits)

lemma pause_isPlaying:
  "isPlaying (pause now s) \<longleftrightarrow> isPlaying s \<and> (ctx s = None \<or> sourceNode s = None)"
  by (auto simp add: pause_def Let_def split: option.splits)

lemma pause_pausedAt:
  "pausedAt (pause now s) =
     (if ctx s \<noteq> None \<and> isPlaying s \<and> sourceNode s \<noteq> None then now - startTime s else pausedAt s)"
  by (auto simp add: pause_def Let_def split: option.splits)

lemma pause_analyser: "analyser (pause now s) = analyser s"
  by (simp add: pause_def Let_def split: option.splits)

lemma setStemVolume_transport:
  "pausedAt (engine_of (setStemVolume now k v s)) = pausedAt s"
  "startTime (engine_of (setStemVolume now k v s)) = startTime s"
  "isPlaying (engine_of (setStemVolume now k v s)) = isPlaying s"
  "buffer (engine_of (setStemVolume now k v s)) = buffer s"
  "ctx (engine_of (setStemVolume now k v s)) = ctx s"
  "sourceNode (engine_of (setStemVolume now k v s)) = sourceNode s"
  "analyser (engine_of (setStemVolume now k v s)) = analyser s"
  by (simp_all add: setStemVolume_def Let_def split: option.splits sum.splits)

lemmas play_fields = play_pausedAt play_buffer play_ctx_None play_isPlaying play_startTime
lemmas pause_fields = pause_buffer pause_ctx_None pause_startTime pause_isPlaying pause_pausedAt

lemma play_sourceNode_Some:
  "\<not> isPlaying s \<Longrightarrow> ctx s \<noteq> None \<Longrightarrow> buffer s \<noteq> None \<Longrightarrow> sourceNode (engine_of (play now s)) \<noteq> None"
  by (auto simp add: play_def Let_def split_def split: option.splits)

lemma stop_noop: "\<not> isPlaying s \<Longrightarrow> pausedAt s = 0 \<Longrightarrow> stop now s = s"
  by (simp add: stop_def pause_noop)

lemma seek_noop: "ctx s = None \<or> buffer s = None \<Longrightarrow> seek now t s = Returned s"
  by (auto simp add: seek_def)

lemma create_fst:
  "fst (createBufferSource c) = \<lparr>source_id = allocated c, source_buffer = None, started = None\<rparr>"
  "fst (createGain c) = \<lparr>gain_id = allocated c, gain = \<lparr>param_value = 1, automation = []\<rparr>\<rparr>"
  "fst (createAnalyser c) = \<lparr>analyser_id = allocated c, fftSize = 2048, smoothingTimeConstant = 8 / 10\<rparr>"
  "fst (createBiquadFilter c) = \<lparr>filter_id = allocated c, filter_type = Lowpass,
       frequency = \<lparr>param_value = 350, automation = []\<rparr>\<rparr>"
  by (simp_all add: createBufferSource_def createGain_def createAnalyser_def createBiquadFilter_def)

lemma create_snd:
  "allocated (snd (createBufferSource c)) = Suc (allocated c)"
  "allocated (snd (createGain c)) = Suc (allocated c)"
  "allocated (snd (createAnalyser c)) = Suc (allocated c)"
  "allocated (snd (createBiquadFilter c)) = Suc (allocated c)"
  "connections (snd (createBufferSource c)) = connections c"
  "connections (snd (createGain c)) = connections c"
  "connections (snd (createAnalyser c)) = connections c"
  "connections (snd (createBiquadFilter c)) = connections c"
  "state (snd (createBufferSource c)) = state c"
  "state (snd (createGain c)) = state c"
  "state (snd (createAnalyser c)) = state c"
  "state (snd (createBiquadFilter c)) = state c"
  by (simp_all add: createBufferSource_def createGain_def createAnalyser_def createBiquadFilter_def)

lemma connect_fields:
  "allocated (connect a b c) = allocated c"
  "connections (connect a b c) = connections c @ [(a, b)]"
  "state (connect a b c) = state c"
  by (simp_all add: connect_def)

lemma resume_fields:
  "allocated (resume c) = allocated c"
  "connections (resume c) = connections c"
  "state (resume c) = Running"
  by (simp_all add: resume_def)

lemmas graph_simps = play_def Let_def split_def create_fst create_snd connect_fields resume_fields

lemma play_builds_filters:
  assumes "ctx s = Some c" "buffer s = Some b" "\<not> isPlaying s"
  shows "lowFilter (engine_of (play now s)) =
           Some \<lparr>filter_id = allocated c + 3, filter_type = Lowpass,
                 frequency = \<lparr>param_value = 250, automation = []\<rparr>\<rparr>"
    and "midLowFilter (engine_of (play now s)) =
           Some \<lparr>filter_id = allocated c + 5, filter_type = Highpass,
                 frequency = \<lparr>param_value = 250, automation = []\<rparr>\<rparr>"
    and "midHighFilter (engine_of (play now s)) =
           Some \<lparr>filter_id = allocated c + 6, filter_type = Lowpass,
                 frequency = \<lparr>param_value = 4000, automation = []\<rparr>\<rparr>"
    and "highFilter (engine_of (play now s)) =
           Some \<lparr>filter_id = allocated c + 8, filter_type = Highpass,
                 frequency = \<lparr>param_value = 4000, automation = []\<rparr>\<rparr>"
  using assms by (simp_all add: graph_simps)

lemma play_builds_gains:
  assumes "ctx s = Some c" "buffer s = Some b" "\<not> isPlaying s"
  shows "masterGain (engine_of (play now s)) =
           Some \<lparr>gain_id = allocated c + 1, gain = \<lparr>param_value = 1, automation = []\<rparr>\<rparr>"
    and "lowGain (engine_of (play now s)) =
           Some \<lparr>gain_id = allocated c + 4, gain = \<lparr>param_value = 1, automation = []\<rparr>\<rparr>"
    and "midGain (engine_of (play now s)) =
           Some \<lparr>gain_id = allocated c + 7, gain = \<lparr>param_value = 1, automation = []\<rparr>\<rparr>"
    and "highGain (engine_of (play now s)) =
           Some \<lparr>gain_id = allocated c + 9, gain = \<lparr>param_value = 1, automation = []\<rparr>\<rparr>"
  using assms by (simp_all add: graph_simps)

lemma play_builds_analyser:
  assumes "ctx s = Some c" "buffer s = Some b" "\<not> isPlaying s"
  shows "analyser (engine_of (play now s)) =
           Some \<lparr>analyser_id = allocated c + 2, fftSize = 2048, smoothingTimeConstant = 85 / 100\<rparr>"
  using assms by (simp add: graph_simps)

lemma play_builds_source:
  assumes "ctx s = Some c" "buffer s = Some b" "\<not> isPlaying s"
  shows "sourceNode (engine_of (play now s)) =
           Some \<lparr>source_id = allocated c, source_buffer = Some b,
                 started = (if pausedAt s < 0 then None else Some (0, pausedAt s))\<rparr>"
  using assms by (simp add: graph_simps)

lemma play_builds_context:
  assumes "ctx s = Some c" "buffer s = Some b" "\<not> isPlaying s"
  shows "map_option allocated (ctx (engine_of (play now s))) = Some (allocated c + 10)"
    and "map_option connections (ctx (engine_of (play now s))) =
           Some (connections c @
                   [(allocated c, allocated c + 3), (allocated c, allocated c + 5),
                    (allocated c, allocated c + 8),
                    (allocated c + 3, allocated c + 4), (allocated c + 4, allocated c + 1),
                    (allocated c + 5, allocated c + 6), (allocated c + 6, allocated c + 7),
                    (allocated c + 7, allocated c + 1),
                    (allocated c + 8, allocated c + 9), (allocated c + 9, allocated c + 1),
                    (allocated c + 1, allocated c + 2), (allocated c + 2, destination)])"
    and "map_option state (ctx (engine_of (play now s))) =
           Some (if state c = Suspended then Running else state c)"
  using assms by (simp_all add: graph_simps)

section \<open>Invariants of a run\<close>

lemma transport_ok_play:
  "transport_ok t s \<Longrightarrow> t \<le> t' \<Longrightarrow> transport_ok t' (engine_of (play t' s))"
  unfolding transport_ok_def
  by (cases "isPlaying s") (auto simp add: play_fields play_already play_sourceNode_Some)

lemma transport_ok_pause:
  "transport_ok t s \<Longrightarrow> t \<le> t' \<Longrightarrow> transport_ok t' (pause t' s)"
  unfolding transport_ok_def
  by (auto simp add: pause_fields)

lemma transport_ok_stop:
  "transport_ok t s \<Longrightarrow> t \<le> t' \<Longrightarrow> transport_ok t' (stop t' s)"
  unfolding transport_ok_def stop_def
  by (auto simp add: pause_fields)

lemma transport_ok_seek:
  assumes "transport_ok t s" "t \<le> t'" "0 \<le> x"
  shows "transport_ok t' (engine_of (seek t' x s))"
proof (cases "ctx s = None \<or> buffer s = None")
  case True
  then show ?thesis using assms by (auto simp add: seek_def transport_ok_def)
next
  case False
  show ?thesis
  proof (cases "isPlaying s")
    case True
    have p: "\<not> isPlaying (pause t' s)"
      using assms True by (simp add: pause_fields transport_ok_def)
    have "transport_ok t' ((pause t' s)\<lparr>pausedAt := x\<rparr>)"
      using p assms by (simp add: transport_ok_def)
    then have "transport_ok t' (engine_of (play t' ((pause t' s)\<lparr>pausedAt := x\<rparr>)))"
      by (rule transport_ok_play) simp
    then show ?thesis using True False by (auto simp add: seek_def Let_def)
  next
    case np: False
    then show ?thesis using False assms by (auto simp add: seek_def Let_def transport_ok_def)
  qed
qed

lemma transport_ok_setStemVolume:
  "transport_ok t s \<Longrightarrow> t \<le> t' \<Longrightarrow> transport_ok t' (engine_of (setStemVolume t' k v s))"
  unfolding transport_ok_def by (auto simp add: setStemVolume_transport)

lemma transport_ok_loadFile:
  assumes "transport_ok t s" "t \<le> t'"
  shows "transport_ok t' (engine_of (loadFile t' r s))"
proof (cases "ctx s")
  case None
  then show ?thesis using assms by (auto simp add: loadFile_def loadFile_begin_def transport_ok_def)
next
  case (Some c)
  have "\<not> isPlaying (stop t' s)"
    using assms by (auto simp add: stop_def pause_fields transport_ok_def)
  then show ?thesis using Some
    by (cases r) (auto simp add: loadFile_def loadFile_begin_def loadFile_finish_def Let_def transport_ok_def stop_def)
qed

lemma transport_ok_perform:
  "transport_ok t s \<Longrightarrow> t \<le> t' \<Longrightarrow> seek_target_ok c \<Longrightarrow> transport_ok t' (engine_of (perform t' c s))"
  by (cases c)
     (simp_all add: transport_ok_play transport_ok_pause transport_ok_stop transport_ok_seek
        transport_ok_setStemVolume transport_ok_loadFile)

lemma transport_ok_run:
  "transport_ok t s \<Longrightarrow> sorted (t # map fst cs) \<Longrightarrow> \<forall>(u, c) \<in> set cs. seek_target_ok c \<Longrightarrow>
   transport_ok (last (t # map fst cs)) (run cs s)"
proof (induction cs arbitrary: t s)
  case Nil
  then show ?case by simp
next
  case (Cons a cs)
  obtain u c where a: "a = (u, c)" by (cases a)
  have "transport_ok u (engine_of (perform u c s))"
    using Cons.prems a by (intro transport_ok_perform[of t]) auto
  moreover have "sorted (u # map fst cs)" using Cons.prems a by simp
  moreover have "\<forall>(u, c) \<in> set cs. seek_target_ok c" using Cons.prems by simp
  ultimately have "transport_ok (last (u # map fst cs)) (run cs (engine_of (perform u c s)))"
    by (rule Cons.IH)
  then show ?case using a by simp
qed

lemma transport_ok_position:
  "transport_ok t s \<Longrightarrow> t \<le> now \<Longrightarrow> 0 \<le> getCurrentTime now s"
  by (auto simp add: transport_ok_def getCurrentTime_def)

lemma transport_ok_later: "transport_ok t s \<Longrightarrow> t \<le> t' \<Longrightarrow> transport_ok t' s"
  by (auto simp add: transport_ok_def)

lemma transport_ok_AudioEngine: "transport_ok t (AudioEngine w)"
  by (simp add: transport_ok_def AudioEngine_def)

lemma empty_phase_perform:
  assumes "empty_phase s" "\<forall>b. c \<noteq> LoadFile (Decoded b)"
  shows "empty_phase (engine_of (perform now c s))"
proof (cases c)
  case (LoadFile r)
  with assms(2) have r: "r = Undecodable" by (cases r) auto
  show ?thesis using assms(1) unfolding LoadFile r
    by (cases "ctx s")
       (auto simp add: empty_phase_def loadFile_def loadFile_begin_def loadFile_finish_def
          stop_noop Let_def)
qed (use assms(1) in \<open>auto simp add: empty_phase_def play_noop pause_noop stop_noop seek_noop
       setStemVolume_transport\<close>)

lemma empty_phase_run:
  "empty_phase s \<Longrightarrow> \<forall>(u, c) \<in> set cs. \<forall>b. c \<noteq> LoadFile (Decoded b) \<Longrightarrow> empty_phase (run cs s)"
proof (induction cs arbitrary: s)
  case Nil
  then show ?case by simp
next
  case (Cons a cs)
  obtain u c where a: "a = (u, c)" by (cases a)
  have "empty_phase (engine_of (perform u c s))"
    using Cons.prems a by (intro empty_phase_perform) auto
  then have "empty_phase (run cs (engine_of (perform u c s)))"
    using Cons.prems by (intro Cons.IH) auto
  then show ?case using a by simp
qed

lemma empty_phase_AudioEngine: "empty_phase (AudioEngine w)"
  by (simp add: empty_phase_def AudioEngine_def)

section \<open>Evaluating concrete runs\<close>

lemma play_sourceNode_eq_None:
  "sourceNode (engine_of (play now s)) = None \<longleftrightarrow>
     sourceNode s = None \<and> (isPlaying s \<or> ctx s = None \<or> buffer s = None)"
  by (auto simp add: play_def Let_def split_def split: option.splits)

lemma pause_sourceNode_eq_None:
  "sourceNode (pause now s) = None \<longleftrightarrow> sourceNode s = None \<or> (ctx s \<noteq> None \<and> isPlaying s)"
  by (auto simp add: pause_def Let_def split: option.splits)

lemma stop_fields:
  "buffer (stop now s) = buffer s"
  "ctx (stop now s) = None \<longleftrightarrow> ctx s = None"
  "startTime (stop now s) = startTime s"
  "isPlaying (stop now s) \<longleftrightarrow> isPlaying s \<and> (ctx s = None \<or> sourceNode s = None)"
  "pausedAt (stop now s) = 0"
  "sourceNode (stop now s) = None \<longleftrightarrow> sourceNode s = None \<or> (ctx s \<noteq> None \<and> isPlaying s)"
  "analyser (stop now s) = analyser s"
  by (simp_all add: stop_def pause_fields pause_sourceNode_eq_None pause_analyser)

lemma loadFile_failure:
  "failure (loadFile now r s) =
     (if ctx s = None then Some ContextNotSupported
      else if r = Undecodable then Some DecodeFailed else None)"
  by (cases r) (auto simp add: loadFile_def loadFile_begin_def loadFile_finish_def Let_def
      split: option.splits)

lemma loadFile_fields:
  "ctx (engine_of (loadFile now r s)) = None \<longleftrightarrow> ctx s = None"
  "buffer (engine_of (loadFile now r s)) =
     (if ctx s = None then buffer s else case r of Decoded b \<Rightarrow> Some b | Undecodable \<Rightarrow> None)"
  "pausedAt (engine_of (loadFile now r s)) = (if ctx s = None then pausedAt s else 0)"
  "startTime (engine_of (loadFile now r s)) =
     (if ctx s = None \<or> r = Undecodable then startTime s else 0)"
  "isPlaying (engine_of (loadFile now r s)) \<longleftrightarrow> isPlaying s \<and> (ctx s = None \<or> sourceNode s = None)"
  "sourceNode (engine_of (loadFile now r s)) = None \<longleftrightarrow>
     sourceNode s = None \<or> (ctx s \<noteq> None \<and> isPlaying s)"
  "analyser (engine_of (loadFile now r s)) = analyser s"
  by (cases r; cases "ctx s";
      simp add: loadFile_def loadFile_begin_def loadFile_finish_def Let_def stop_fields)+

lemma AudioEngine_fields:
  "ctx (AudioEngine w) = None \<longleftrightarrow> w = None"
  "buffer (AudioEngine w) = None"
  "pausedAt (AudioEngine w) = 0"
  "startTime (AudioEngine w) = 0"
  "\<not> isPlaying (AudioEngine w)"
  "sourceNode (AudioEngine w) = None"
  "analyser (AudioEngine w) = None"
  by (simp_all add: AudioEngine_def)

lemmas run_simps = AudioEngine_fields loadFile_failure loadFile_fields stop_fields
  pause_fields pause_sourceNode_eq_None pause_analyser
  play_fields play_failure play_sourceNode_eq_None
  setStemVolume_transport seek_def Let_def getCurrentTime_def getDuration_def

lemma loadFile_new_engine:
  "ctx (engine_of (loadFile now r (AudioEngine (Some st)))) =
     Some \<lparr>state = (if st = Suspended then Running else st), allocated = 1, connections = []\<rparr>"
  by (cases r)
     (simp_all add: AudioEngine_def new_AudioContext_def loadFile_def loadFile_begin_def
        loadFile_finish_def stop_def pause_def resume_def)

text \<open>
  In every state a run reaches, a playing engine holds a started source, so the
  \<^verbatim>\<open>sourceNode.stop()\<close> of \<^verbatim>\<open>pause()\<close> is always called on a source that was started
  (the one case in which the Web Audio interface lets \<^verbatim>\<open>stop\<close> throw does not arise).
\<close>

lemma source_started_play: "source_started s \<Longrightarrow> source_started (engine_of (play now s))"
proof (cases "isPlaying s")
  case True
  assume "source_started s"
  then show ?thesis using True
    by (auto simp add: source_started_def play_already split: option.splits)
next
  case False
  show ?thesis
  proof (cases "ctx s = None \<or> buffer s = None")
    case True
    then show ?thesis using False by (auto simp add: play_noop source_started_def)
  next
    case nb: False
    then obtain c b where cb: "ctx s = Some c" "buffer s = Some b" by auto
    show ?thesis
      using False cb
      by (simp add: source_started_def play_isPlaying play_ctx_None
          play_builds_source [OF cb False])
  qed
qed

lemma source_started_pause: "source_started s \<Longrightarrow> source_started (pause now s)"
  by (auto simp add: source_started_def pause_isPlaying split: option.splits)

lemma source_started_stop: "source_started s \<Longrightarrow> source_started (stop now s)"
  by (auto simp add: source_started_def stop_fields split: option.splits)

lemma source_started_seek: "source_started s \<Longrightarrow> source_started (engine_of (seek now t s))"
proof -
  assume a: "source_started s"
  have "source_started ((pause now s)\<lparr>pausedAt := t\<rparr>)"
    using source_started_pause [OF a, of now] by (simp add: source_started_def)
  then have "source_started (engine_of (play now ((pause now s)\<lparr>pausedAt := t\<rparr>)))"
    by (rule source_started_play)
  moreover have "\<not> isPlaying s \<Longrightarrow> source_started (s\<lparr>pausedAt := t\<rparr>)"
    by (simp add: source_started_def)
  ultimately show ?thesis using a by (auto simp add: seek_def Let_def)
qed

lemma source_started_setStemVolume:
  "source_started s \<Longrightarrow> source_started (engine_of (setStemVolume now k v s))"
  by (simp add: source_started_def setStemVolume_transport)

lemma source_started_loadFile:
  assumes "source_started s"
  shows "source_started (engine_of (loadFile now r s))"
proof (cases "ctx s = None")
  case True
  then have "loadFile now r s = Raised ContextNotSupported s"
    by (simp add: loadFile_def loadFile_begin_def)
  then show ?thesis using assms by simp
next
  case False
  have "\<not> isPlaying (engine_of (loadFile now r s))"
    using assms False by (auto simp add: loadFile_fields source_started_def split: option.splits)
  then show ?thesis by (simp add: source_started_def)
qed

lemma source_started_perform:
  "source_started s \<Longrightarrow> source_started (engine_of (perform now c s))"
  by (cases c)
     (simp_all add: source_started_play source_started_pause source_started_stop
        source_started_seek source_started_setStemVolume source_started_loadFile)

lemma source_started_run: "source_started s \<Longrightarrow> source_started (run cs s)"
  by (induction cs arbitrary: s) (auto simp add: source_started_perform)

lemma source_started_reachable: "source_started (run cs (AudioEngine w))"
  by (rule source_started_run) (simp add: source_started_def AudioEngine_def)

section \<open>The transport\<close>

subsection \<open>Position range\<close>

text \<open>
  \<^verbatim>\<open>seek\<close> stores its argument as it is: on a 10 second buffer, \<^verbatim>\<open>seek(15)\<close> leaves the
  reported position at 15, outside the buffer.
\<close>

theorem position_leaves_buffer_range:
  "\<not> (0 \<le> getCurrentTime 1 (run [(0, LoadFile (Decoded \<lparr>duration = 10\<rparr>)), (1, Seek 15)]
                              (AudioEngine (Some Running))) \<and>
      getCurrentTime 1 (run [(0, LoadFile (Decoded \<lparr>duration = 10\<rparr>)), (1, Seek 15)]
                          (AudioEngine (Some Running)))
        \<le> getDuration (run [(0, LoadFile (Decoded \<lparr>duration = 10\<rparr>)), (1, Seek 15)]
                          (AudioEngine (Some Running))))"
  by (simp add: run_simps)

text \<open>
  Nor does playback stop the bookkeeping at the end of the buffer: with no seek at all,
  19 seconds after \<^verbatim>\<open>play()\<close> the reported position of the same buffer is 19.
\<close>

lemma playing_runs_past_the_end:
  "getCurrentTime 20 (run [(0, LoadFile (Decoded \<lparr>duration = 10\<rparr>)), (1, Play)]
                       (AudioEngine (Some Running))) = 19"
  by (simp add: run_simps)

text \<open>
  What the calls other than \<^verbatim>\<open>seek\<close>, \<^verbatim>\<open>stop\<close> and \<^verbatim>\<open>loadFile\<close> do to the reported
  position: at the instant of the call, nothing. \<^verbatim>\<open>play()\<close> starts the clock-derived
  position at the stored one, \<^verbatim>\<open>pause()\<close> stores the clock-derived one, and a \<^verbatim>\<open>play()\<close>
  while playing leaves \<^verbatim>\<open>startTime\<close> alone. Between calls the position follows the clock
  or stands still, so along such calls it never decreases.
\<close>

lemma play_keeps_position: "getCurrentTime now (engine_of (play now s)) = getCurrentTime now s"
  by (auto simp add: getCurrentTime_def play_fields)

lemma pause_keeps_position: "getCurrentTime now (pause now s) = getCurrentTime now s"
  by (auto simp add: getCurrentTime_def pause_fields)

lemma setStemVolume_keeps_position:
  "getCurrentTime now (engine_of (setStemVolume u k v s)) = getCurrentTime now s"
  by (simp add: getCurrentTime_def setStemVolume_transport)

lemma perform_keeps_position:
  "\<not> sets_position c \<Longrightarrow> getCurrentTime now (engine_of (perform now c s)) = getCurrentTime now s"
  by (cases c) (simp_all add: play_keeps_position pause_keeps_position setStemVolume_keeps_position)

lemma position_mono_clock: "t \<le> u \<Longrightarrow> getCurrentTime t s \<le> getCurrentTime u s"
  by (simp add: getCurrentTime_def)

lemma run_position_mono:
  "sorted (t # map fst ds @ [t']) \<Longrightarrow> \<forall>(u, c) \<in> set ds. \<not> sets_position c \<Longrightarrow>
   getCurrentTime t s \<le> getCurrentTime t' (run ds s)"
proof (induction ds arbitrary: t s)
  case Nil
  then show ?case by (simp add: position_mono_clock)
next
  case (Cons a ds)
  obtain u c where a: "a = (u, c)" by (cases a)
  have tu: "t \<le> u" using Cons.prems(1) a by simp
  have c: "\<not> sets_position c" using Cons.prems(2) a by simp
  have "getCurrentTime t s \<le> getCurrentTime u s" using tu by (rule position_mono_clock)
  also have "\<dots> = getCurrentTime u (engine_of (perform u c s))"
    using c by (simp add: perform_keeps_position)
  also have "\<dots> \<le> getCurrentTime t' (run ds (engine_of (perform u c s)))"
    using Cons.prems a by (intro Cons.IH) auto
  finally show ?case using a by simp
qed

text \<open>
  C1, as amended. For every sequence of engine calls made at non-decreasing engine-clock
  values in which every seek target is non-negative, the position reported by
  \<^verbatim>\<open>getCurrentTime()\<close> at any later clock value is at least 0. And from the state so
  reached, along any further calls other than \<^verbatim>\<open>seek\<close>, \<^verbatim>\<open>stop\<close> and \<^verbatim>\<open>loadFile\<close>, made
  at non-decreasing clock values, the reported position never decreases: throughout a
  Playing phase without a seek it is non-decreasing in the engine clock, whatever
  \<^verbatim>\<open>play()\<close> and gain calls fall into it, and it is held across a \<^verbatim>\<open>pause()\<close> and taken
  up again by the next \<^verbatim>\<open>play()\<close>. (No upper bound by the buffer duration is part of the
  statement.)
\<close>

theorem position_nonneg_and_monotone:
  assumes "sorted (map fst cs @ [now])"
    and "\<forall>(u, c) \<in> set cs. \<forall>x. c = Seek x \<longrightarrow> 0 \<le> x"
    and "sorted (now # map fst ds @ [now'])"
    and "\<forall>(u, c) \<in> set ds. c \<noteq> Stop \<and> (\<forall>x. c \<noteq> Seek x) \<and> (\<forall>r. c \<noteq> LoadFile r)"
  shows "0 \<le> getCurrentTime now (run cs (AudioEngine w)) \<and>
         getCurrentTime now (run cs (AudioEngine w))
           \<le> getCurrentTime now' (run ds (run cs (AudioEngine w)))"
proof -
  let ?s = "run cs (AudioEngine w)"
  have ok: "\<forall>(u, c) \<in> set cs. seek_target_ok c"
  proof (clarify)
    fix u c assume "(u, c) \<in> set cs"
    with assms(2) show "seek_target_ok c" by (cases c) auto
  qed
  have pos: "0 \<le> getCurrentTime now ?s"
  proof (cases cs)
    case Nil
    then show ?thesis by (simp add: getCurrentTime_def AudioEngine_def)
  next
    case (Cons a cs')
    define t where "t = fst a"
    have srt: "sorted (t # map fst cs)" using assms(1) Cons by (simp add: t_def sorted_append)
    have "transport_ok (last (t # map fst cs)) ?s"
      using transport_ok_AudioEngine srt ok by (rule transport_ok_run)
    moreover have "last (t # map fst cs) \<le> now"
    proof -
      have "last (t # map fst cs) \<in> set (t # map fst cs)" by (rule last_in_set) simp
      moreover have "\<forall>u \<in> set (t # map fst cs). u \<le> now"
        using assms(1) Cons by (auto simp add: sorted_append t_def)
      ultimately show ?thesis by blast
    qed
    ultimately show ?thesis by (rule transport_ok_position)
  qed
  have keep: "\<forall>(u, c) \<in> set ds. \<not> sets_position c"
  proof (clarify)
    fix u c assume "(u, c) \<in> set ds" "sets_position c"
    with assms(4) show False by (cases c) auto
  qed
  have mono: "getCurrentTime now ?s \<le> getCurrentTime now' (run ds ?s)"
    using assms(3) keep by (rule run_position_mono)
  from pos mono show ?thesis by simp
qed

theorem position_nonneg_and_monotone_witness:
  "getCurrentTime 4 (run [(0, LoadFile (Decoded \<lparr>duration = 10\<rparr>)), (1, Seek 5), (2, Play)]
                       (AudioEngine (Some Running))) = 7 \<and>
   getCurrentTime 10 (run [(5, Play), (6, SetStemVolume Low (1 / 2)), (7, Pause), (9, Play)]
                        (run [(0, LoadFile (Decoded \<lparr>duration = 10\<rparr>)), (1, Seek 5), (2, Play)]
                           (AudioEngine (Some Running)))) = 11 \<and>
   0 \<le> getCurrentTime 4 (run [(0, LoadFile (Decoded \<lparr>duration = 10\<rparr>)), (1, Seek 5), (2, Play)]
                           (AudioEngine (Some Running))) \<and>
   getCurrentTime 4 (run [(0, LoadFile (Decoded \<lparr>duration = 10\<rparr>)), (1, Seek 5), (2, Play)]
                       (AudioEngine (Some Running)))
     \<le> getCurrentTime 10 (run [(5, Play), (6, SetStemVolume Low (1 / 2)), (7, Pause), (9, Play)]
                            (run [(0, LoadFile (Decoded \<lparr>duration = 10\<rparr>)), (1, Seek 5), (2, Play)]
                               (AudioEngine (Some Running))))"
proof -
  let ?cs = "[(0, LoadFile (Decoded \<lparr>duration = 10\<rparr>)), (1, Seek 5), (2, Play)]"
  let ?ds = "[(5, Play), (6, SetStemVolume Low (1 / 2)), (7, Pause), (9, Play)]"
  have v: "getCurrentTime 4 (run ?cs (AudioEngine (Some Running))) = 7"
    "getCurrentTime 10 (run ?ds (run ?cs (AudioEngine (Some Running)))) = 11"
    by (simp_all add: run_simps)
  have h1: "sorted (map fst ?cs @ [4::real])" by simp
  have h2: "\<forall>(u, c) \<in> set ?cs. \<forall>x. c = Seek x \<longrightarrow> 0 \<le> x" by simp
  have h3: "sorted ((4::real) # map fst ?ds @ [10])" by simp
  have h4: "\<forall>(u, c) \<in> set ?ds. c \<noteq> Stop \<and> (\<forall>x. c \<noteq> Seek x) \<and> (\<forall>r. c \<noteq> LoadFile r)" by simp
  show ?thesis
    using position_nonneg_and_monotone [OF h1 h2 h3 h4, of "Some Running"] v by simp
qed

subsection \<open>Position query\<close>

text \<open>
  C3. With a context present, \<^verbatim>\<open>getCurrentTime()\<close> is the engine clock minus
  \<^verbatim>\<open>startTime\<close> when the engine is playing and the stored \<^verbatim>\<open>pausedAt\<close> otherwise.
  \<^verbatim>\<open>play()\<close> from a non-playing state with a buffer and a non-negative position records
  \<^verbatim>\<open>startTime = now - pausedAt\<close>, so the position at that instant is the stored one;
  \<^verbatim>\<open>pause()\<close> from a playing state stores \<^verbatim>\<open>pausedAt = now - startTime\<close>; hence the
  position is frozen at every later clock value while paused and the next \<^verbatim>\<open>play()\<close>
  resumes from the same point.
\<close>

theorem position_query_formula:
  assumes "ctx s \<noteq> None"
  shows "getCurrentTime now s = (if isPlaying s then now - startTime s else pausedAt s) \<and>
         (\<not> isPlaying s \<and> buffer s \<noteq> None \<and> 0 \<le> pausedAt s \<longrightarrow>
            failure (play now s) = None \<and>
            isPlaying (engine_of (play now s)) \<and>
            startTime (engine_of (play now s)) = now - pausedAt s \<and>
            getCurrentTime now (engine_of (play now s)) = getCurrentTime now s) \<and>
         (isPlaying s \<and> sourceNode s \<noteq> None \<longrightarrow>
            \<not> isPlaying (pause now s) \<and>
            pausedAt (pause now s) = now - startTime s \<and>
            getCurrentTime later (pause now s) = getCurrentTime now s) \<and>
         (isPlaying s \<and> sourceNode s \<noteq> None \<and> buffer s \<noteq> None \<and> startTime s \<le> now \<longrightarrow>
            isPlaying (engine_of (play later (pause now s))) \<and>
            getCurrentTime later (engine_of (play later (pause now s))) = getCurrentTime now s)"
  using assms
  by (auto simp add: getCurrentTime_def play_fields play_failure pause_fields)

theorem position_query_formula_witness:
  "startTime (engine_of (play 2 (run [(0, LoadFile (Decoded \<lparr>duration = 10\<rparr>)), (1, Seek 5)]
                                   (AudioEngine (Some Running))))) = - 3 \<and>
   getCurrentTime 2 (engine_of (play 2 (run [(0, LoadFile (Decoded \<lparr>duration = 10\<rparr>)), (1, Seek 5)]
                                   (AudioEngine (Some Running))))) = 5 \<and>
   getCurrentTime 4 (run [(0, LoadFile (Decoded \<lparr>duration = 10\<rparr>)), (1, Seek 5), (2, Play)]
                       (AudioEngine (Some Running))) = 7 \<and>
   getCurrentTime 9 (pause 4 (run [(0, LoadFile (Decoded \<lparr>duration = 10\<rparr>)), (1, Seek 5), (2, Play)]
                                (AudioEngine (Some Running)))) = 7 \<and>
   getCurrentTime 9 (engine_of (play 9 (pause 4
       (run [(0, LoadFile (Decoded \<lparr>duration = 10\<rparr>)), (1, Seek 5), (2, Play)]
          (AudioEngine (Some Running)))))) = 7"
proof -
  let ?paused = "run [(0, LoadFile (Decoded \<lparr>duration = 10\<rparr>)), (1, Seek 5)] (AudioEngine (Some Running))"
  let ?playing = "run [(0, LoadFile (Decoded \<lparr>duration = 10\<rparr>)), (1, Seek 5), (2, Play)]
                    (AudioEngine (Some Running))"
  have a: "ctx ?paused \<noteq> None" "\<not> isPlaying ?paused" "buffer ?paused \<noteq> None" "pausedAt ?paused = 5"
    by (simp_all add: run_simps)
  have b: "ctx ?playing \<noteq> None" "isPlaying ?playing" "buffer ?playing \<noteq> None"
    "sourceNode ?playing \<noteq> None" "startTime ?playing = - 3"
    by (simp_all add: run_simps play_sourceNode_Some)
  show ?thesis
    using position_query_formula [OF a(1), of 2 9]
      position_query_formula [OF b(1), of 4 9] a b
    by simp
qed

subsection \<open>Play while playing\<close>

text \<open>
  C4. When the engine is already playing, \<^verbatim>\<open>play()\<close> returns normally and changes no
  field of the engine other than the context (which it may resume): the node references,
  the source, \<^verbatim>\<open>startTime\<close>, \<^verbatim>\<open>pausedAt\<close> and \<^verbatim>\<open>isPlaying\<close> are the same; the context
  has created no node and made no connection; the reported position is unchanged at
  every clock value.
\<close>

theorem play_while_playing_changes_nothing:
  assumes "isPlaying s"
  shows "failure (play now s) = None \<and>
         (engine_of (play now s))\<lparr>ctx := ctx s\<rparr> = s \<and>
         map_option allocated (ctx (engine_of (play now s))) = map_option allocated (ctx s) \<and>
         map_option connections (ctx (engine_of (play now s))) = map_option connections (ctx s) \<and>
         getCurrentTime t (engine_of (play now s)) = getCurrentTime t s"
  using assms
  by (cases "ctx s") (auto simp add: play_already resume_def getCurrentTime_def)

theorem play_while_playing_changes_nothing_witness:
  "isPlaying (run [(0, LoadFile (Decoded \<lparr>duration = 10\<rparr>)), (2, Play)] (AudioEngine (Some Suspended))) \<and>
   failure (play 3 (run [(0, LoadFile (Decoded \<lparr>duration = 10\<rparr>)), (2, Play)]
                      (AudioEngine (Some Suspended)))) = None \<and>
   getCurrentTime 5 (engine_of (play 3 (run [(0, LoadFile (Decoded \<lparr>duration = 10\<rparr>)), (2, Play)]
                                          (AudioEngine (Some Suspended))))) = 3"
proof -
  let ?s = "run [(0, LoadFile (Decoded \<lparr>duration = 10\<rparr>)), (2, Play)] (AudioEngine (Some Suspended))"
  have p: "isPlaying ?s" by (simp add: run_simps)
  have g: "getCurrentTime 5 ?s = 3" by (simp add: run_simps)
  show ?thesis
    using play_while_playing_changes_nothing [OF p, of 3 5] p g by simp
qed

subsection \<open>Before the first load\<close>

text \<open>
  C10. In every state reached from a new engine by calls none of which is a load that
  decodes, \<^verbatim>\<open>play()\<close>, \<^verbatim>\<open>pause()\<close>, \<^verbatim>\<open>seek(t)\<close> and \<^verbatim>\<open>stop()\<close> return normally
  and leave the whole engine as it was, and \<^verbatim>\<open>getCurrentTime()\<close> and \<^verbatim>\<open>getDuration()\<close>
  are 0.
\<close>

theorem empty_phase_calls_are_noops:
  assumes "\<forall>(u, c) \<in> set cs. \<forall>b. c \<noteq> LoadFile (Decoded b)"
    and "s = run cs (AudioEngine w)"
  shows "play now s = Returned s \<and> pause now s = s \<and> seek now t s = Returned s \<and>
         stop now s = s \<and> getCurrentTime now s = 0 \<and> getDuration s = 0"
proof -
  have "empty_phase s"
    unfolding assms(2) using empty_phase_AudioEngine assms(1) by (rule empty_phase_run)
  then have e: "buffer s = None" "\<not> isPlaying s" "pausedAt s = 0"
    by (simp_all add: empty_phase_def)
  show ?thesis
    using e by (simp add: play_noop pause_noop seek_noop stop_noop getCurrentTime_def getDuration_def)
qed

theorem empty_phase_calls_are_noops_witness:
  "play 4 (run [(1, Play), (2, Seek 5), (3, LoadFile Undecodable)] (AudioEngine (Some Suspended)))
     = Returned (run [(1, Play), (2, Seek 5), (3, LoadFile Undecodable)] (AudioEngine (Some Suspended))) \<and>
   seek 4 7 (run [(1, Play), (2, Seek 5), (3, LoadFile Undecodable)] (AudioEngine (Some Suspended)))
     = Returned (run [(1, Play), (2, Seek 5), (3, LoadFile Undecodable)] (AudioEngine (Some Suspended))) \<and>
   getCurrentTime 4 (run [(1, Play), (2, Seek 5), (3, LoadFile Undecodable)] (AudioEngine (Some Suspended))) = 0"
proof -
  let ?cs = "[(1, Play), (2, Seek 5), (3, LoadFile Undecodable)]"
  have h: "\<forall>(u, c) \<in> set ?cs. \<forall>b. c \<noteq> LoadFile (Decoded b)" by simp
  show ?thesis
    using empty_phase_calls_are_noops [where w = "Some Suspended" and now = 4 and t = 7, OF h refl]
    by simp
qed

section \<open>The crossover network\<close>

lemma play_rebuilds:
  assumes "ctx s \<noteq> None" "buffer s \<noteq> None" "\<not> isPlaying s"
  shows "map_option gain (lowGain (engine_of (play now s))) = Some \<lparr>param_value = 1, automation = []\<rparr>"
    and "map_option gain (midGain (engine_of (play now s))) = Some \<lparr>param_value = 1, automation = []\<rparr>"
    and "map_option gain (highGain (engine_of (play now s))) = Some \<lparr>param_value = 1, automation = []\<rparr>"
    and "filter_setting (lowFilter (engine_of (play now s))) =
           Some (Lowpass, \<lparr>param_value = 250, automation = []\<rparr>)"
    and "filter_setting (midLowFilter (engine_of (play now s))) =
           Some (Highpass, \<lparr>param_value = 250, automation = []\<rparr>)"
    and "filter_setting (midHighFilter (engine_of (play now s))) =
           Some (Lowpass, \<lparr>param_value = 4000, automation = []\<rparr>)"
    and "filter_setting (highFilter (engine_of (play now s))) =
           Some (Highpass, \<lparr>param_value = 4000, automation = []\<rparr>)"
    and "map_option frequencyBinCount (analyser (engine_of (play now s))) = Some 1024"
proof -
  obtain c b where "ctx s = Some c" "buffer s = Some b" using assms by auto
  note h = this assms(3)
  show "map_option gain (lowGain (engine_of (play now s))) = Some \<lparr>param_value = 1, automation = []\<rparr>"
    "map_option gain (midGain (engine_of (play now s))) = Some \<lparr>param_value = 1, automation = []\<rparr>"
    "map_option gain (highGain (engine_of (play now s))) = Some \<lparr>param_value = 1, automation = []\<rparr>"
    by (simp_all add: play_builds_gains [OF h])
  show "filter_setting (lowFilter (engine_of (play now s))) =
           Some (Lowpass, \<lparr>param_value = 250, automation = []\<rparr>)"
    "filter_setting (midLowFilter (engine_of (play now s))) =
           Some (Highpass, \<lparr>param_value = 250, automation = []\<rparr>)"
    "filter_setting (midHighFilter (engine_of (play now s))) =
           Some (Lowpass, \<lparr>param_value = 4000, automation = []\<rparr>)"
    "filter_setting (highFilter (engine_of (play now s))) =
           Some (Highpass, \<lparr>param_value = 4000, automation = []\<rparr>)"
    by (simp_all add: play_builds_filters [OF h] filter_setting_def)
  show "map_option frequencyBinCount (analyser (engine_of (play now s))) = Some 1024"
    by (simp add: play_builds_analyser [OF h] frequencyBinCount_def)
qed

lemma pause_nodes:
  "lowGain (pause now s) = lowGain s" "midGain (pause now s) = midGain s"
  "highGain (pause now s) = highGain s" "masterGain (pause now s) = masterGain s"
  "lowFilter (pause now s) = lowFilter s" "midLowFilter (pause now s) = midLowFilter s"
  "midHighFilter (pause now s) = midHighFilter s" "highFilter (pause now s) = highFilter s"
  by (simp_all add: pause_def Let_def split: option.splits)

lemma play_pause_not_playing:
  assumes "ctx s \<noteq> None" "buffer s \<noteq> None" "\<not> isPlaying s"
  shows "\<not> isPlaying (pause t (engine_of (play now s)))"
  using assms by (simp add: pause_isPlaying play_sourceNode_Some play_ctx_None)

text \<open>
  C7. Whenever \<^verbatim>\<open>play()\<close> is called in a non-playing state that has a context and a
  buffer, it builds a fresh graph of biquad (second-order) filters: the Low band is a
  low-pass at 250 Hz, the Mid band a high-pass at 250 Hz feeding a low-pass at 4000 Hz,
  the High band a high-pass at 4000 Hz; the source feeds the three band inputs, each band
  ends in its gain node, the three gains feed the master gain, which feeds the analyser
  and then the destination. The call ends in the playing state when the stored position
  is not negative. Filter types and cutoff frequencies are the same constants in every
  build: after a pause and another \<^verbatim>\<open>play()\<close> the four filters have the same settings.
\<close>

theorem crossover_topology:
  assumes "ctx s = Some c" "buffer s = Some b" "\<not> isPlaying s"
    and "s' = engine_of (play now s)" and "n = allocated c"
    and "s'' = engine_of (play tr (pause tp s'))"
  shows "filter_setting (lowFilter s') = Some (Lowpass, \<lparr>param_value = 250, automation = []\<rparr>) \<and>
         filter_setting (midLowFilter s') = Some (Highpass, \<lparr>param_value = 250, automation = []\<rparr>) \<and>
         filter_setting (midHighFilter s') = Some (Lowpass, \<lparr>param_value = 4000, automation = []\<rparr>) \<and>
         filter_setting (highFilter s') = Some (Highpass, \<lparr>param_value = 4000, automation = []\<rparr>) \<and>
         map_option source_id (sourceNode s') = Some n \<and>
         map_option gain_id (masterGain s') = Some (n + 1) \<and>
         map_option analyser_id (analyser s') = Some (n + 2) \<and>
         map_option filter_id (lowFilter s') = Some (n + 3) \<and>
         map_option gain_id (lowGain s') = Some (n + 4) \<and>
         map_option filter_id (midLowFilter s') = Some (n + 5) \<and>
         map_option filter_id (midHighFilter s') = Some (n + 6) \<and>
         map_option gain_id (midGain s') = Some (n + 7) \<and>
         map_option filter_id (highFilter s') = Some (n + 8) \<and>
         map_option gain_id (highGain s') = Some (n + 9) \<and>
         map_option connections (ctx s') =
           Some (connections c @
             [(n, n + 3), (n, n + 5), (n, n + 8),
              (n + 3, n + 4), (n + 4, n + 1),
              (n + 5, n + 6), (n + 6, n + 7), (n + 7, n + 1),
              (n + 8, n + 9), (n + 9, n + 1),
              (n + 1, n + 2), (n + 2, destination)]) \<and>
         (0 \<le> pausedAt s \<longrightarrow> isPlaying s') \<and>
         filter_setting (lowFilter s'') = filter_setting (lowFilter s') \<and>
         filter_setting (midLowFilter s'') = filter_setting (midLowFilter s') \<and>
         filter_setting (midHighFilter s'') = filter_setting (midHighFilter s') \<and>
         filter_setting (highFilter s'') = filter_setting (highFilter s')"
proof -
  note h = assms(1-3)
  have h': "ctx s \<noteq> None" "buffer s \<noteq> None" using h by simp_all
  have filters: "filter_setting (lowFilter s') = Some (Lowpass, \<lparr>param_value = 250, automation = []\<rparr>)"
    "filter_setting (midLowFilter s') = Some (Highpass, \<lparr>param_value = 250, automation = []\<rparr>)"
    "filter_setting (midHighFilter s') = Some (Lowpass, \<lparr>param_value = 4000, automation = []\<rparr>)"
    "filter_setting (highFilter s') = Some (Highpass, \<lparr>param_value = 4000, automation = []\<rparr>)"
    unfolding assms(4) by (rule play_rebuilds [OF h' h(3)])+
  have ids: "map_option source_id (sourceNode s') = Some n"
    "map_option gain_id (masterGain s') = Some (n + 1)"
    "map_option analyser_id (analyser s') = Some (n + 2)"
    "map_option filter_id (lowFilter s') = Some (n + 3)"
    "map_option gain_id (lowGain s') = Some (n + 4)"
    "map_option filter_id (midLowFilter s') = Some (n + 5)"
    "map_option filter_id (midHighFilter s') = Some (n + 6)"
    "map_option gain_id (midGain s') = Some (n + 7)"
    "map_option filter_id (highFilter s') = Some (n + 8)"
    "map_option gain_id (highGain s') = Some (n + 9)"
    unfolding assms(4,5)
    by (simp_all add: play_builds_filters [OF h] play_builds_gains [OF h]
        play_builds_analyser [OF h] play_builds_source [OF h])
  have edges: "map_option connections (ctx s') =
           Some (connections c @
             [(n, n + 3), (n, n + 5), (n, n + 8),
              (n + 3, n + 4), (n + 4, n + 1),
              (n + 5, n + 6), (n + 6, n + 7), (n + 7, n + 1),
              (n + 8, n + 9), (n + 9, n + 1),
              (n + 1, n + 2), (n + 2, destination)])"
    unfolding assms(4,5) by (rule play_builds_context [OF h])
  have playing: "0 \<le> pausedAt s \<longrightarrow> isPlaying s'"
    unfolding assms(4) using h by (simp add: play_isPlaying)
  have p: "ctx (pause tp s') \<noteq> None" "buffer (pause tp s') \<noteq> None" "\<not> isPlaying (pause tp s')"
    unfolding assms(4) using h' h(3)
    by (simp_all add: pause_ctx_None pause_buffer play_ctx_None play_buffer play_pause_not_playing)
  have again: "filter_setting (lowFilter s'') = Some (Lowpass, \<lparr>param_value = 250, automation = []\<rparr>)"
    "filter_setting (midLowFilter s'') = Some (Highpass, \<lparr>param_value = 250, automation = []\<rparr>)"
    "filter_setting (midHighFilter s'') = Some (Lowpass, \<lparr>param_value = 4000, automation = []\<rparr>)"
    "filter_setting (highFilter s'') = Some (Highpass, \<lparr>param_value = 4000, automation = []\<rparr>)"
    unfolding assms(6) by (rule play_rebuilds [OF p])+
  show ?thesis
    using filters ids edges playing again by simp
qed


theorem crossover_topology_witness:
  "filter_setting (lowFilter (engine_of (play 1 (run [(0, LoadFile (Decoded \<lparr>duration = 10\<rparr>))]
       (AudioEngine (Some Running)))))) = Some (Lowpass, \<lparr>param_value = 250, automation = []\<rparr>) \<and>
   map_option filter_id (midHighFilter (engine_of (play 1 (run [(0, LoadFile (Decoded \<lparr>duration = 10\<rparr>))]
       (AudioEngine (Some Running)))))) = Some 7 \<and>
   map_option connections (ctx (engine_of (play 1 (run [(0, LoadFile (Decoded \<lparr>duration = 10\<rparr>))]
       (AudioEngine (Some Running)))))) =
     Some [(1, 4), (1, 6), (1, 9), (4, 5), (5, 2), (6, 7), (7, 8), (8, 2), (9, 10), (10, 2),
           (2, 3), (3, 0)] \<and>
   isPlaying (engine_of (play 1 (run [(0, LoadFile (Decoded \<lparr>duration = 10\<rparr>))]
       (AudioEngine (Some Running)))))"
proof -
  let ?s = "run [(0, LoadFile (Decoded \<lparr>duration = 10\<rparr>))] (AudioEngine (Some Running))"
  have h: "ctx ?s = Some \<lparr>state = Running, allocated = 1, connections = []\<rparr>"
    "buffer ?s = Some \<lparr>duration = 10\<rparr>" "\<not> isPlaying ?s" "0 \<le> pausedAt ?s"
    by (simp_all add: run_simps loadFile_new_engine)
  show ?thesis
    using crossover_topology [where now = 1 and tp = 2 and tr = 3, OF h(1-3) refl refl refl] h(4)
    by (auto simp add: destination_def)
qed

section \<open>Parameter ranges\<close>

text \<open>
  Neither \<^verbatim>\<open>seek\<close> nor \<^verbatim>\<open>setStemVolume\<close> clamps: on a 10 second buffer \<^verbatim>\<open>seek(15)\<close>
  stores 15, and \<^verbatim>\<open>setStemVolume('low', 3)\<close> on a playing engine sends the gain towards 3.
\<close>

lemma setStemVolume_band:
  assumes "ctx s \<noteq> None" "band_gain k s = Some g" "float_range v"
  shows "setStemVolume now k v s = Returned (engine_of (setStemVolume now k v s))"
    and "band_gain k (engine_of (setStemVolume now k v s)) =
           Some (g\<lparr>gain := (gain g)\<lparr>automation := automation (gain g) @ [(v, now, 1 / 10)]\<rparr>\<rparr>)"
  using assms by (cases k; auto simp add: setStemVolume_def setTargetAtTime_def Let_def)+

lemma setStemVolume_rejects:
  assumes "ctx s \<noteq> None" "band_gain k s \<noteq> None" "\<not> float_range v"
  shows "setStemVolume now k v s = Raised TypeError s"
  using assms by (cases k) (auto simp add: setStemVolume_def setTargetAtTime_def Let_def)

lemma setStemVolume_absent:
  "band_gain k s = None \<Longrightarrow> setStemVolume now k v s = Returned s"
  by (cases k) (auto simp add: setStemVolume_def Let_def split: option.splits)

lemma setStemVolume_applied:
  assumes "ctx s \<noteq> None" "band_gain k s \<noteq> None" "float_range v"
  shows "applied_gain k (engine_of (setStemVolume now k v s)) = Some v"
proof -
  obtain g where g: "band_gain k s = Some g" using assms(2) by auto
  show ?thesis
    by (simp add: applied_gain_def setStemVolume_band(2) [OF assms(1) g assms(3)] heading_for_def)
qed

lemma float_range_small: "\<bar>v\<bar> \<le> 1000 \<Longrightarrow> float_range v"
  by (simp add: float_range_def)

theorem out_of_range_values_are_not_clamped:
  "\<not> (0 \<le> pausedAt (engine_of (seek 1 15 (engine_of (loadFile 0 (Decoded \<lparr>duration = 10\<rparr>)
                                                   (AudioEngine (Some Running)))))) \<and>
      pausedAt (engine_of (seek 1 15 (engine_of (loadFile 0 (Decoded \<lparr>duration = 10\<rparr>)
                                                   (AudioEngine (Some Running))))))
        \<le> getDuration (engine_of (seek 1 15 (engine_of (loadFile 0 (Decoded \<lparr>duration = 10\<rparr>)
                                                   (AudioEngine (Some Running))))))) \<and>
   \<not> (\<exists>v. applied_gain Low (engine_of (setStemVolume 2 Low 3 (engine_of (play 1 (engine_of
          (loadFile 0 (Decoded \<lparr>duration = 10\<rparr>) (AudioEngine (Some Running)))))))) = Some v \<and>
          0 \<le> v \<and> v \<le> 1)"
proof -
  let ?l = "engine_of (loadFile 0 (Decoded \<lparr>duration = 10\<rparr>) (AudioEngine (Some Running)))"
  have l: "ctx ?l \<noteq> None" "buffer ?l \<noteq> None" "\<not> isPlaying ?l"
    by (simp_all add: run_simps)
  have "map_option gain (lowGain (engine_of (play 1 ?l))) = Some \<lparr>param_value = 1, automation = []\<rparr>"
    using l by (rule play_rebuilds)
  then have g: "band_gain Low (engine_of (play 1 ?l)) \<noteq> None" by auto
  have c: "ctx (engine_of (play 1 ?l)) \<noteq> None" using l by (simp add: play_ctx_None)
  have "applied_gain Low (engine_of (setStemVolume 2 Low 3 (engine_of (play 1 ?l)))) = Some 3"
    using c g by (rule setStemVolume_applied) (simp add: float_range_small)
  moreover have "pausedAt (engine_of (seek 1 15 ?l)) = 15" "getDuration (engine_of (seek 1 15 ?l)) = 10"
    by (simp_all add: run_simps)
  ultimately show ?thesis by simp
qed

lemma seek_while_playing:
  assumes "ctx s \<noteq> None" "buffer s \<noteq> None" "isPlaying s" "sourceNode s \<noteq> None"
  shows "seek now t s = play now ((pause now s)\<lparr>pausedAt := t\<rparr>)"
    and "\<not> isPlaying ((pause now s)\<lparr>pausedAt := t\<rparr>)"
    and "ctx ((pause now s)\<lparr>pausedAt := t\<rparr>) \<noteq> None"
    and "buffer ((pause now s)\<lparr>pausedAt := t\<rparr>) \<noteq> None"
  using assms by (auto simp add: seek_def Let_def pause_fields)

text \<open>
  C2, as amended. The engine neither clamps nor checks its parameters; they reach the
  Web Audio calls as they are, and only those calls reject anything. With a buffer loaded
  and the engine not playing, \<^verbatim>\<open>seek(t)\<close> returns normally and stores \<open>t\<close> itself as the
  position, for every real \<open>t\<close>. While playing, \<^verbatim>\<open>seek(t)\<close> with \<open>t \<ge> 0\<close> returns
  normally, playing again, with the position at \<open>t\<close> however large; with \<open>t < 0\<close> it
  stores \<open>t\<close>, and the restart throws a RangeError and leaves the engine not playing.
  \<^verbatim>\<open>setStemVolume(band, v)\<close>, where the band's gain node exists, requests \<open>v\<close> itself as
  the target, from the current clock with time constant 0.1, and returns normally for
  every \<open>v\<close> that single precision can hold, above 1 and below 0 included; for a \<open>v\<close>
  beyond that it throws a TypeError and changes nothing. Where the node does not exist it
  returns normally and changes nothing.
\<close>

theorem out_of_range_values_pass_through:
  assumes "ctx s \<noteq> None"
  shows "(buffer s \<noteq> None \<and> \<not> isPlaying s \<longrightarrow> seek now t s = Returned (s\<lparr>pausedAt := t\<rparr>)) \<and>
         (buffer s \<noteq> None \<and> isPlaying s \<and> sourceNode s \<noteq> None \<and> 0 \<le> t \<longrightarrow>
            failure (seek now t s) = None \<and>
            isPlaying (engine_of (seek now t s)) \<and>
            pausedAt (engine_of (seek now t s)) = t \<and>
            getCurrentTime now (engine_of (seek now t s)) = t) \<and>
         (buffer s \<noteq> None \<and> isPlaying s \<and> sourceNode s \<noteq> None \<and> t < 0 \<longrightarrow>
            failure (seek now t s) = Some RangeError \<and>
            \<not> isPlaying (engine_of (seek now t s)) \<and>
            pausedAt (engine_of (seek now t s)) = t) \<and>
         (band_gain k s = Some g \<and> float_range v \<longrightarrow>
            failure (setStemVolume now k v s) = None \<and>
            band_gain k (engine_of (setStemVolume now k v s)) =
              Some (g\<lparr>gain := (gain g)\<lparr>automation := automation (gain g) @ [(v, now, 1 / 10)]\<rparr>\<rparr>) \<and>
            applied_gain k (engine_of (setStemVolume now k v s)) = Some v) \<and>
         (band_gain k s = Some g \<and> \<not> float_range v \<longrightarrow>
            setStemVolume now k v s = Raised TypeError s) \<and>
         (band_gain k s = None \<longrightarrow> setStemVolume now k v s = Returned s)"
proof -
  have a: "buffer s \<noteq> None \<and> \<not> isPlaying s \<longrightarrow> seek now t s = Returned (s\<lparr>pausedAt := t\<rparr>)"
    using assms by (auto simp add: seek_def Let_def)
  have b: "failure (seek now t s) = None \<and> isPlaying (engine_of (seek now t s)) \<and>
           pausedAt (engine_of (seek now t s)) = t \<and> getCurrentTime now (engine_of (seek now t s)) = t"
    if "buffer s \<noteq> None" "isPlaying s" "sourceNode s \<noteq> None" "0 \<le> t"
    using seek_while_playing [where now = now and t = t, OF assms that(1-3)] that(4)
    by (simp add: play_fields play_failure getCurrentTime_def)
  have b': "failure (seek now t s) = Some RangeError \<and> \<not> isPlaying (engine_of (seek now t s)) \<and>
           pausedAt (engine_of (seek now t s)) = t"
    if "buffer s \<noteq> None" "isPlaying s" "sourceNode s \<noteq> None" "t < 0"
    using seek_while_playing [where now = now and t = t, OF assms that(1-3)] that(4)
    by (simp add: play_fields play_failure)
  have c: "failure (setStemVolume now k v s) = None \<and>
            band_gain k (engine_of (setStemVolume now k v s)) =
              Some (g\<lparr>gain := (gain g)\<lparr>automation := automation (gain g) @ [(v, now, 1 / 10)]\<rparr>\<rparr>) \<and>
            applied_gain k (engine_of (setStemVolume now k v s)) = Some v"
    if "band_gain k s = Some g" "float_range v"
  proof -
    have "failure (setStemVolume now k v s) = None"
      using setStemVolume_band(1) [OF assms that, of now] by (metis failure.simps(1))
    then show ?thesis
      using setStemVolume_band(2) [OF assms that] setStemVolume_applied [OF assms _ that(2), of k] that(1)
      by simp
  qed
  have d: "setStemVolume now k v s = Raised TypeError s" if "band_gain k s = Some g" "\<not> float_range v"
    using setStemVolume_rejects [OF assms _ that(2), of k] that(1) by simp
  show ?thesis using a b b' c d setStemVolume_absent [of k s now v] by blast
qed

theorem out_of_range_values_pass_through_witness:
  "seek 2 15 (engine_of (loadFile 0 (Decoded \<lparr>duration = 10\<rparr>) (AudioEngine (Some Running))))
     = Returned ((engine_of (loadFile 0 (Decoded \<lparr>duration = 10\<rparr>) (AudioEngine (Some Running))))
                   \<lparr>pausedAt := 15\<rparr>) \<and>
   setStemVolume 2 Low 3 (engine_of (loadFile 0 (Decoded \<lparr>duration = 10\<rparr>) (AudioEngine (Some Running))))
     = Returned (engine_of (loadFile 0 (Decoded \<lparr>duration = 10\<rparr>) (AudioEngine (Some Running)))) \<and>
   pausedAt (engine_of (seek 3 20 (engine_of (play 1 (engine_of
       (loadFile 0 (Decoded \<lparr>duration = 10\<rparr>) (AudioEngine (Some Running)))))))) = 20 \<and>
   failure (seek 3 (- 1) (engine_of (play 1 (engine_of
       (loadFile 0 (Decoded \<lparr>duration = 10\<rparr>) (AudioEngine (Some Running))))))) = Some RangeError \<and>
   applied_gain Low (engine_of (setStemVolume 2 Low 3 (engine_of (play 1 (engine_of
       (loadFile 0 (Decoded \<lparr>duration = 10\<rparr>) (AudioEngine (Some Running)))))))) = Some 3 \<and>
   setStemVolume 2 Low (10 ^ 39) (engine_of (play 1 (engine_of
       (loadFile 0 (Decoded \<lparr>duration = 10\<rparr>) (AudioEngine (Some Running))))))
     = Raised TypeError (engine_of (play 1 (engine_of
         (loadFile 0 (Decoded \<lparr>duration = 10\<rparr>) (AudioEngine (Some Running))))))"
proof -
  let ?l = "engine_of (loadFile 0 (Decoded \<lparr>duration = 10\<rparr>) (AudioEngine (Some Running)))"
  let ?p = "engine_of (play 1 ?l)"
  let ?g = "\<lparr>gain_id = 5, gain = \<lparr>param_value = 1, automation = []\<rparr>\<rparr>"
  have l: "ctx ?l \<noteq> None" "buffer ?l \<noteq> None" "\<not> isPlaying ?l"
    by (simp_all add: run_simps)
  have lg: "band_gain Low ?l = None"
    by (simp add: AudioEngine_def loadFile_def loadFile_begin_def loadFile_finish_def stop_def
        pause_def new_AudioContext_def)
  have lc: "ctx ?l = Some \<lparr>state = Running, allocated = 1, connections = []\<rparr>"
    "buffer ?l = Some \<lparr>duration = 10\<rparr>"
    by (simp_all add: run_simps loadFile_new_engine)
  have p: "ctx ?p \<noteq> None" "buffer ?p \<noteq> None" "isPlaying ?p" "sourceNode ?p \<noteq> None"
    by (simp_all add: run_simps)
  have g: "band_gain Low ?p = Some ?g"
    using play_builds_gains(2) [OF lc l(3), of 1] by simp
  have r: "float_range 3" "\<not> float_range (10 ^ 39)"
    by (simp_all add: float_range_def)
  show ?thesis
    using out_of_range_values_pass_through [OF l(1), where now = 2 and t = 15 and k = Low and v = 3]
      out_of_range_values_pass_through [OF p(1), where now = 3 and t = 20 and k = Low and v = 3
        and g = ?g]
      out_of_range_values_pass_through [OF p(1), where now = 3 and t = "- 1" and k = Low
        and v = "10 ^ 39" and g = ?g]
      out_of_range_values_pass_through [OF p(1), where now = 2 and t = 20 and k = Low and v = 3
        and g = ?g]
      out_of_range_values_pass_through [OF p(1), where now = 2 and t = 20 and k = Low
        and v = "10 ^ 39" and g = ?g]
      l lg p g r
    by simp
qed

section \<open>Loading\<close>

text \<open>
  A load that fails to decode does not leave the engine as it was: with a 10 second
  buffer loaded and the position at 3, the failed load leaves no buffer, duration 0 and
  position 0.
\<close>

theorem failed_load_discards_previous_asset:
  "\<not> (buffer (engine_of (loadFile 5 Undecodable
           (run [(0, LoadFile (Decoded \<lparr>duration = 10\<rparr>)), (1, Seek 3)] (AudioEngine (Some Running)))))
        = buffer (run [(0, LoadFile (Decoded \<lparr>duration = 10\<rparr>)), (1, Seek 3)] (AudioEngine (Some Running))) \<and>
      getDuration (engine_of (loadFile 5 Undecodable
           (run [(0, LoadFile (Decoded \<lparr>duration = 10\<rparr>)), (1, Seek 3)] (AudioEngine (Some Running)))))
        = getDuration (run [(0, LoadFile (Decoded \<lparr>duration = 10\<rparr>)), (1, Seek 3)] (AudioEngine (Some Running))) \<and>
      pausedAt (engine_of (loadFile 5 Undecodable
           (run [(0, LoadFile (Decoded \<lparr>duration = 10\<rparr>)), (1, Seek 3)] (AudioEngine (Some Running)))))
        = pausedAt (run [(0, LoadFile (Decoded \<lparr>duration = 10\<rparr>)), (1, Seek 3)] (AudioEngine (Some Running))))"
  by (simp add: run_simps)

text \<open>
  C6, as amended. When \<^verbatim>\<open>loadFile\<close> fails to decode, the call throws (the error ends
  that attempt, nothing is retried), and the engine is left without an asset whatever it
  held before: \<^verbatim>\<open>stop()\<close> and \<^verbatim>\<open>buffer = null\<close> have run before decoding starts, so the
  buffer is gone, the position and \<^verbatim>\<open>getDuration()\<close> are 0, \<^verbatim>\<open>play()\<close> and \<^verbatim>\<open>seek()\<close>
  do nothing, and (from any state in which a playing engine holds its source) playback
  is stopped.
\<close>

theorem failed_load_leaves_engine_empty:
  assumes "ctx s \<noteq> None" and "s' = engine_of (loadFile now Undecodable s)"
  shows "failure (loadFile now Undecodable s) = Some DecodeFailed \<and>
         buffer s' = None \<and> pausedAt s' = 0 \<and> getDuration s' = 0 \<and>
         play t s' = Returned s' \<and> seek t x s' = Returned s' \<and>
         ((isPlaying s \<longrightarrow> sourceNode s \<noteq> None) \<longrightarrow>
            \<not> isPlaying s' \<and> getCurrentTime t s' = 0 \<and> stop t s' = s')"
proof -
  have f: "failure (loadFile now Undecodable s) = Some DecodeFailed"
    by (simp add: loadFile_failure assms(1))
  have b: "buffer s' = None" "pausedAt s' = 0"
    unfolding assms(2) by (simp_all add: loadFile_fields assms(1))
  have i: "isPlaying s' \<longleftrightarrow> isPlaying s \<and> sourceNode s = None"
    unfolding assms(2) by (simp add: loadFile_fields assms(1))
  show ?thesis
    using f b i by (auto simp add: getDuration_def play_noop seek_noop getCurrentTime_def stop_noop)
qed

theorem failed_load_leaves_engine_empty_witness:
  "failure (loadFile 5 Undecodable
      (run [(0, LoadFile (Decoded \<lparr>duration = 10\<rparr>)), (1, Seek 3), (2, Play)] (AudioEngine (Some Running))))
     = Some DecodeFailed \<and>
   getDuration (engine_of (loadFile 5 Undecodable
      (run [(0, LoadFile (Decoded \<lparr>duration = 10\<rparr>)), (1, Seek 3), (2, Play)] (AudioEngine (Some Running)))))
     = 0 \<and>
   getCurrentTime 6 (engine_of (loadFile 5 Undecodable
      (run [(0, LoadFile (Decoded \<lparr>duration = 10\<rparr>)), (1, Seek 3), (2, Play)] (AudioEngine (Some Running)))))
     = 0"
proof -
  let ?s = "run [(0, LoadFile (Decoded \<lparr>duration = 10\<rparr>)), (1, Seek 3), (2, Play)] (AudioEngine (Some Running))"
  have h: "ctx ?s \<noteq> None" "isPlaying ?s" "sourceNode ?s \<noteq> None"
    by (simp_all add: run_simps)
  show ?thesis
    using failed_load_leaves_engine_empty [OF h(1) refl, where now = 5 and t = 6] h by simp
qed

text \<open>The caller agrees: after a failed upload the App forgets the file and shows the
  error.\<close>

lemma handleFileUpload_failure:
  "\<not> uiFile (handleFileUpload now Undecodable a) \<and> errorMsg (handleFileUpload now Undecodable a) \<noteq> None"
  by (cases "ctx (audioEngine a)")
     (simp_all add: handleFileUpload_def loadFile_def loadFile_begin_def loadFile_finish_def Let_def)

section \<open>The spectrum tap\<close>

text \<open>
  Before anything was played, \<^verbatim>\<open>getAnalyser()\<close> returns null, and the Visualizer's frame
  draws nothing: no frame of 1024 zeros is produced.
\<close>

theorem no_spectrum_frame_before_first_play:
  "getAnalyser (AudioEngine (Some Running)) = None \<and>
   render (\<lambda>i. 0) 200 (getAnalyser (AudioEngine (Some Running))) \<noteq> Some (replicate 1024 0)"
  by (simp add: getAnalyser_def AudioEngine_def render_def)

lemma seek_not_playing:
  "\<not> isPlaying s \<Longrightarrow> seek now t s = Returned s \<or> seek now t s = Returned (s\<lparr>pausedAt := t\<rparr>)"
  by (simp add: seek_def Let_def)

lemma no_graph_perform:
  assumes "analyser s = None \<and> \<not> isPlaying s" "c \<noteq> Play"
  shows "analyser (engine_of (perform now c s)) = None \<and> \<not> isPlaying (engine_of (perform now c s))"
proof (cases c)
  case (Seek t)
  then show ?thesis using assms(1) seek_not_playing [of s now t] by auto
qed (use assms in \<open>simp_all add: pause_analyser pause_isPlaying stop_fields setStemVolume_transport
       loadFile_fields\<close>)

lemma no_graph_run:
  "analyser s = None \<and> \<not> isPlaying s \<Longrightarrow> \<forall>(u, c) \<in> set cs. c \<noteq> Play \<Longrightarrow>
   analyser (run cs s) = None \<and> \<not> isPlaying (run cs s)"
proof (induction cs arbitrary: s)
  case Nil
  then show ?case by simp
next
  case (Cons a cs)
  obtain u c where a: "a = (u, c)" by (cases a)
  have "analyser (engine_of (perform u c s)) = None \<and> \<not> isPlaying (engine_of (perform u c s))"
    using Cons.prems a by (intro no_graph_perform) auto
  then have "analyser (run cs (engine_of (perform u c s))) = None \<and>
             \<not> isPlaying (run cs (engine_of (perform u c s)))"
    using Cons.prems by (intro Cons.IH) auto
  then show ?case using a by simp
qed

text \<open>
  C9, as amended. As long as \<^verbatim>\<open>play()\<close> has not been called since the engine was
  constructed, \<^verbatim>\<open>getAnalyser()\<close> returns null and a Visualizer frame on it draws nothing
  (it neither fails nor produces a frame). Once a \<^verbatim>\<open>play()\<close> has built a graph,
  \<^verbatim>\<open>getAnalyser()\<close> returns that graph's analyser, with 1024 frequency bins, so a frame
  has 1024 bars; \<^verbatim>\<open>pause()\<close> and \<^verbatim>\<open>stop()\<close> do not clear it, so the same analyser is
  still returned after playback was torn down.
\<close>

theorem spectrum_query_without_graph:
  assumes "\<forall>(u, c) \<in> set cs. c \<noteq> Play" and "s = run cs (AudioEngine w)"
  shows "getAnalyser s = None \<and> render freq height (getAnalyser s) = None \<and>
         (ctx p \<noteq> None \<and> buffer p \<noteq> None \<and> \<not> isPlaying p \<longrightarrow>
            getAnalyser (engine_of (play now p)) \<noteq> None \<and>
            map_option frequencyBinCount (getAnalyser (engine_of (play now p))) = Some 1024 \<and>
            map_option length (render freq height (getAnalyser (engine_of (play now p)))) = Some 1024 \<and>
            getAnalyser (pause later (engine_of (play now p))) = getAnalyser (engine_of (play now p)) \<and>
            getAnalyser (stop later (engine_of (play now p))) = getAnalyser (engine_of (play now p)))"
proof -
  have "analyser (AudioEngine w) = None \<and> \<not> isPlaying (AudioEngine w)"
    by (simp add: AudioEngine_fields)
  then have "analyser s = None \<and> \<not> isPlaying s"
    unfolding assms(2) using assms(1) by (rule no_graph_run)
  then have a: "getAnalyser s = None \<and> render freq height (getAnalyser s) = None"
    by (simp add: getAnalyser_def render_def)
  have b: "getAnalyser (engine_of (play now p)) \<noteq> None \<and>
            map_option frequencyBinCount (getAnalyser (engine_of (play now p))) = Some 1024 \<and>
            map_option length (render freq height (getAnalyser (engine_of (play now p)))) = Some 1024 \<and>
            getAnalyser (pause later (engine_of (play now p))) = getAnalyser (engine_of (play now p)) \<and>
            getAnalyser (stop later (engine_of (play now p))) = getAnalyser (engine_of (play now p))"
    if "ctx p \<noteq> None" "buffer p \<noteq> None" "\<not> isPlaying p"
  proof -
    have n: "map_option frequencyBinCount (analyser (engine_of (play now p))) = Some 1024"
      using that by (rule play_rebuilds)
    then obtain an where an: "analyser (engine_of (play now p)) = Some an" "frequencyBinCount an = 1024"
      by auto
    show ?thesis
      using an by (simp add: getAnalyser_def render_def pause_analyser stop_fields Let_def)
  qed
  show ?thesis using a b by blast
qed

theorem spectrum_query_without_graph_witness:
  "getAnalyser (run [(0, LoadFile (Decoded \<lparr>duration = 10\<rparr>)), (1, Seek 3), (2, Pause)]
                  (AudioEngine (Some Running))) = None \<and>
   map_option frequencyBinCount (getAnalyser (engine_of (play 3
       (run [(0, LoadFile (Decoded \<lparr>duration = 10\<rparr>)), (1, Seek 3), (2, Pause)]
          (AudioEngine (Some Running)))))) = Some 1024 \<and>
   getAnalyser (stop 4 (engine_of (play 3
       (run [(0, LoadFile (Decoded \<lparr>duration = 10\<rparr>)), (1, Seek 3), (2, Pause)]
          (AudioEngine (Some Running)))))) \<noteq> None"
proof -
  let ?cs = "[(0, LoadFile (Decoded \<lparr>duration = 10\<rparr>)), (1, Seek 3), (2, Pause)]"
  let ?s = "run ?cs (AudioEngine (Some Running))"
  have h: "\<forall>(u, c) \<in> set ?cs. c \<noteq> Play" by simp
  have p: "ctx ?s \<noteq> None" "buffer ?s \<noteq> None" "\<not> isPlaying ?s"
    by (simp_all add: run_simps)
  show ?thesis
    using spectrum_query_without_graph [OF h refl, where w = "Some Running" and p = ?s and now = 3
        and later = 4] p
    by simp
qed

section \<open>Band gains\<close>

subsection \<open>Mute and un-mute\<close>

lemma setStemVolume_band_present:
  "band_gain k (engine_of (setStemVolume now j v s)) = None \<longleftrightarrow> band_gain k s = None"
  by (cases k; cases j)
     (auto simp add: setStemVolume_def setTargetAtTime_def Let_def split: option.splits)

text \<open>
  C5. Take any band that is not muted, with slider value \<open>g = stemVolumes a k\<close>. Muting
  it marks it muted and keeps the slider value; un-muting it brings the App's mute and
  volume state back. Where the engine has a context and the band's gain node, muting
  sends the gain towards 0 and un-muting sends it towards exactly \<open>g\<close>. A slider change
  to \<open>g'\<close> made while muted is kept by the App but not sent to the engine (the gain keeps
  heading for 0), and the un-mute that follows sends the gain towards \<open>g'\<close>. Where the
  band has no gain node, mute and un-mute leave the engine untouched. (The values sent on
  un-mute are values single precision can hold, as every gain between 0 and 1 is.)
\<close>

theorem mute_unmute_round_trip:
  assumes "\<not> stemMutes a k"
    and "m = handleStemMute tm k a"
    and "u = handleStemMute tu k m"
    and "m' = handleStemVolumeChange ts k g' m"
    and "u' = handleStemMute tv k m'"
  shows "stemMutes m k \<and> stemVolumes m = stemVolumes a \<and>
         stemMutes u = stemMutes a \<and> stemVolumes u = stemVolumes a \<and>
         stemMutes m' k \<and> stemMutes u' = stemMutes a \<and> stemVolumes u' k = g' \<and>
         (ctx (audioEngine a) \<noteq> None \<and> band_gain k (audioEngine a) \<noteq> None \<longrightarrow>
            applied_gain k (audioEngine m) = Some 0 \<and>
            (float_range (stemVolumes a k) \<longrightarrow>
               applied_gain k (audioEngine u) = Some (stemVolumes a k)) \<and>
            applied_gain k (audioEngine m') = Some 0 \<and>
            (float_range g' \<longrightarrow> applied_gain k (audioEngine u') = Some g')) \<and>
         (band_gain k (audioEngine a) = None \<longrightarrow>
            audioEngine u = audioEngine a \<and> audioEngine u' = audioEngine a)"
proof -
  have m: "stemMutes m k" "stemVolumes m = stemVolumes a"
    "audioEngine m = engine_of (setStemVolume tm k 0 (audioEngine a))"
    unfolding assms(2) using assms(1) by (simp_all add: handleStemMute_def Let_def)
  have u: "stemMutes u = stemMutes a" "stemVolumes u = stemVolumes a"
    "audioEngine u = engine_of (setStemVolume tu k (stemVolumes a k) (audioEngine m))"
    unfolding assms(3) using m(1,2) assms(1,2)
    by (simp_all add: handleStemMute_def Let_def fun_upd_idem)
  have m': "stemMutes m' = stemMutes m" "stemVolumes m' k = g'" "audioEngine m' = audioEngine m"
    unfolding assms(4) using m(1) by (simp_all add: handleStemVolumeChange_def Let_def)
  have u': "stemMutes u' = stemMutes a" "stemVolumes u' k = g'"
    "audioEngine u' = engine_of (setStemVolume tv k g' (audioEngine m))"
    unfolding assms(5) using m' m(1) assms(1,2)
    by (simp_all add: handleStemMute_def Let_def fun_upd_idem)
  have zero: "float_range 0" by (simp add: float_range_def)
  have present: "applied_gain k (audioEngine m) = Some 0 \<and>
            (float_range (stemVolumes a k) \<longrightarrow>
               applied_gain k (audioEngine u) = Some (stemVolumes a k)) \<and>
            applied_gain k (audioEngine m') = Some 0 \<and>
            (float_range g' \<longrightarrow> applied_gain k (audioEngine u') = Some g')"
    if c: "ctx (audioEngine a) \<noteq> None" and g: "band_gain k (audioEngine a) \<noteq> None"
  proof -
    have cm: "ctx (audioEngine m) \<noteq> None" "band_gain k (audioEngine m) \<noteq> None"
      using c g by (simp_all add: m(3) setStemVolume_transport setStemVolume_band_present)
    have z: "applied_gain k (audioEngine m) = Some 0"
      unfolding m(3) using c g zero by (rule setStemVolume_applied)
    have un: "applied_gain k (audioEngine u) = Some (stemVolumes a k)"
      if "float_range (stemVolumes a k)"
      unfolding u(3) using cm that by (rule setStemVolume_applied)
    have un': "applied_gain k (audioEngine u') = Some g'" if "float_range g'"
      unfolding u'(3) using cm that by (rule setStemVolume_applied)
    show ?thesis using z un un' by (simp add: m'(3))
  qed
  have absent: "audioEngine u = audioEngine a \<and> audioEngine u' = audioEngine a"
    if "band_gain k (audioEngine a) = None"
    using that by (simp add: u(3) u'(3) m(3) setStemVolume_absent)
  show ?thesis
    using m(1,2) u(1,2) m'(1) u'(1,2) present absent by simp
qed


theorem mute_unmute_round_trip_witness:
  "applied_gain Low (audioEngine (handleStemMute 3 Low
      (handleStemVolumeChange 2 Low (7 / 10) (App (engine_of (play 1 (engine_of
         (loadFile 0 (Decoded \<lparr>duration = 10\<rparr>) (AudioEngine (Some Running)))))))))) = Some 0 \<and>
   applied_gain Low (audioEngine (handleStemMute 4 Low (handleStemMute 3 Low
      (handleStemVolumeChange 2 Low (7 / 10) (App (engine_of (play 1 (engine_of
         (loadFile 0 (Decoded \<lparr>duration = 10\<rparr>) (AudioEngine (Some Running))))))))))) = Some (7 / 10) \<and>
   applied_gain Low (audioEngine (handleStemMute 6 Low (handleStemVolumeChange 5 Low (3 / 10)
      (handleStemMute 3 Low
      (handleStemVolumeChange 2 Low (7 / 10) (App (engine_of (play 1 (engine_of
         (loadFile 0 (Decoded \<lparr>duration = 10\<rparr>) (AudioEngine (Some Running)))))))))))) = Some (3 / 10)"
proof -
  let ?l = "engine_of (loadFile 0 (Decoded \<lparr>duration = 10\<rparr>) (AudioEngine (Some Running)))"
  let ?p = "engine_of (play 1 ?l)"
  let ?a = "handleStemVolumeChange 2 Low (7 / 10) (App ?p)"
  have l: "ctx ?l \<noteq> None" "buffer ?l \<noteq> None" "\<not> isPlaying ?l"
    by (simp_all add: run_simps)
  have "map_option gain (lowGain ?p) = Some \<lparr>param_value = 1, automation = []\<rparr>"
    using l by (rule play_rebuilds)
  then have g: "band_gain Low ?p \<noteq> None" by auto
  have c: "ctx ?p \<noteq> None" using l(1) by (simp add: play_ctx_None)
  have e: "audioEngine ?a = engine_of (setStemVolume 2 Low (7 / 10) ?p)" "\<not> stemMutes ?a Low"
    "stemVolumes ?a Low = 7 / 10"
    by (simp_all add: handleStemVolumeChange_def App_def Let_def)
  have h: "ctx (audioEngine ?a) \<noteq> None" "band_gain Low (audioEngine ?a) \<noteq> None"
    unfolding e(1) using c g
    by (simp_all only: setStemVolume_transport setStemVolume_band_present not_False_eq_True)
  have r: "float_range (7 / 10)" "float_range (3 / 10)"
    by (simp_all add: float_range_def)
  show ?thesis
    using mute_unmute_round_trip [OF e(2) refl refl refl refl, where tm = 3 and tu = 4 and ts = 5
        and tv = 6 and g' = "3 / 10"] h e(3) r
    by simp
qed

subsection \<open>Gains set while not playing\<close>

lemma outcome_case_Returned:
  "failure out = None \<Longrightarrow>
   (case out of Returned s \<Rightarrow> f s | Raised e s \<Rightarrow> h e s) = f (engine_of out)"
  by (cases out) simp_all

lemma loadFile_nodes:
  "lowGain (engine_of (loadFile now r s)) = lowGain s"
  "midGain (engine_of (loadFile now r s)) = midGain s"
  "highGain (engine_of (loadFile now r s)) = highGain s"
  by (cases r; cases "ctx s";
      simp add: loadFile_def loadFile_begin_def loadFile_finish_def Let_def stop_def pause_nodes)+

text \<open>
  C8, the code against the claim. A gain set while the engine is not playing does not
  reach the next graph. Set before the first \<^verbatim>\<open>play()\<close> (no gain node yet), set after a
  \<^verbatim>\<open>pause()\<close> (on the node of the finished run), or set while playing and followed by a
  \<^verbatim>\<open>seek\<close> (which rebuilds the graph): each time the low band of the fresh graph has
  gain 1 and no request pending, not the 0.5 that was set.
\<close>

theorem gain_set_while_paused_is_dropped:
  "map_option gain (lowGain (run [(0, LoadFile (Decoded \<lparr>duration = 10\<rparr>)),
                                   (1, SetStemVolume Low (1 / 2)), (2, Play)]
                               (AudioEngine (Some Running))))
     = Some \<lparr>param_value = 1, automation = []\<rparr> \<and>
   map_option gain (lowGain (run [(0, LoadFile (Decoded \<lparr>duration = 10\<rparr>)), (1, Play), (2, Pause),
                                   (3, SetStemVolume Low (1 / 2)), (4, Play)]
                               (AudioEngine (Some Running))))
     = Some \<lparr>param_value = 1, automation = []\<rparr> \<and>
   map_option gain (lowGain (run [(0, LoadFile (Decoded \<lparr>duration = 10\<rparr>)), (1, Play),
                                   (2, SetStemVolume Low (1 / 2)), (3, Seek 4)]
                               (AudioEngine (Some Running))))
     = Some \<lparr>param_value = 1, automation = []\<rparr>"
proof -
  let ?l = "engine_of (loadFile 0 (Decoded \<lparr>duration = 10\<rparr>) (AudioEngine (Some Running)))"
  let ?a = "engine_of (setStemVolume 1 Low (1 / 2) ?l)"
  have a: "ctx ?a \<noteq> None" "buffer ?a \<noteq> None" "\<not> isPlaying ?a"
    by (simp_all add: run_simps)
  have 1: "map_option gain (lowGain (engine_of (play 2 ?a))) = Some \<lparr>param_value = 1, automation = []\<rparr>"
    using a by (rule play_rebuilds)
  let ?b = "engine_of (setStemVolume 3 Low (1 / 2) (pause 2 (engine_of (play 1 ?l))))"
  have b: "ctx ?b \<noteq> None" "buffer ?b \<noteq> None" "\<not> isPlaying ?b"
    by (simp_all add: run_simps)
  have 2: "map_option gain (lowGain (engine_of (play 4 ?b))) = Some \<lparr>param_value = 1, automation = []\<rparr>"
    using b by (rule play_rebuilds)
  let ?c = "engine_of (setStemVolume 2 Low (1 / 2) (engine_of (play 1 ?l)))"
  have c: "ctx ?c \<noteq> None" "buffer ?c \<noteq> None" "isPlaying ?c" "sourceNode ?c \<noteq> None"
    by (simp_all add: run_simps)
  have 3: "map_option gain (lowGain (engine_of (seek 3 4 ?c))) = Some \<lparr>param_value = 1, automation = []\<rparr>"
    unfolding seek_while_playing(1) [OF c]
    using seek_while_playing(3,4,2) [OF c] by (rule play_rebuilds)
  show ?thesis using 1 2 3 by simp
qed

text \<open>
  The App works around it in one place only: \<^verbatim>\<open>handlePlayPause\<close> sends the slider values
  again 50 ms after \<^verbatim>\<open>play()\<close>, as a ramp from 1; \<^verbatim>\<open>handleSeek\<close> sends nothing after
  the rebuild.
\<close>

lemma setStemVolume_returns:
  "float_range v \<Longrightarrow> setStemVolume now k v s = Returned (engine_of (setStemVolume now k v s))"
  by (simp add: setStemVolume_def setTargetAtTime_def Let_def split: option.splits)

lemma setStemVolume_other_band:
  "j \<noteq> k \<Longrightarrow> band_gain k (engine_of (setStemVolume now j v s)) = band_gain k s"
  by (cases k; cases j)
     (auto simp add: setStemVolume_def setTargetAtTime_def Let_def split: option.splits)

lemma forEach_stem_step:
  "forEach_stem now vols mutes (k # ks) s =
     (if failure (setStemVolume now k (if mutes k then 0 else vols k) s) = None
      then forEach_stem now vols mutes ks
             (engine_of (setStemVolume now k (if mutes k then 0 else vols k) s))
      else setStemVolume now k (if mutes k then 0 else vols k) s)"
  by (cases "setStemVolume now k (if mutes k then 0 else vols k) s") simp_all

lemma app_resends_gains_after_play:
  fixes a0 a1 a2 a3 a4 :: app
  assumes "a0 = handleFileUpload 0 (Decoded \<lparr>duration = 10\<rparr>) (App (AudioEngine (Some Running)))"
    and "a1 = handleStemVolumeChange 1 Low (1 / 2) a0"
    and "a2 = handlePlayPause 2 a1"
    and "a3 = timeout_fires (41 / 20) a2"
    and "a4 = handleSeek 3 4 a3"
  shows "map_option gain (lowGain (audioEngine a2)) = Some \<lparr>param_value = 1, automation = []\<rparr>"
    and "map_option gain (lowGain (audioEngine a3)) =
           Some \<lparr>param_value = 1, automation = [(1 / 2, 41 / 20, 1 / 10)]\<rparr>"
    and "map_option gain (lowGain (audioEngine a4)) = Some \<lparr>param_value = 1, automation = []\<rparr>"
    and "timers a4 = []"
proof -
  let ?l = "engine_of (loadFile 0 (Decoded \<lparr>duration = 10\<rparr>) (AudioEngine (Some Running)))"
  have lf: "failure (loadFile 0 (Decoded \<lparr>duration = 10\<rparr>) (AudioEngine (Some Running))) = None"
    by (simp add: run_simps)
  have l: "ctx ?l \<noteq> None" "buffer ?l \<noteq> None" "\<not> isPlaying ?l" "lowGain ?l = None"
    by (simp_all add: run_simps loadFile_nodes AudioEngine_def)
  have a0: "audioEngine a0 = ?l" "uiFile a0" "\<not> uiIsPlaying a0" "stemVolumes a0 = (\<lambda>k. 1)"
    "stemMutes a0 = (\<lambda>k. False)" "timers a0 = []"
    unfolding assms(1)
    by (simp_all add: handleFileUpload_def Let_def outcome_case_Returned [OF lf] App_def)
  have a1: "audioEngine a1 = ?l" "uiFile a1" "\<not> uiIsPlaying a1"
    "stemVolumes a1 = (\<lambda>k. 1)(Low := 1 / 2)" "stemMutes a1 = (\<lambda>k. False)" "timers a1 = []"
    unfolding assms(2) using a0 l(4)
    by (simp_all add: handleStemVolumeChange_def Let_def setStemVolume_absent)
  let ?p = "engine_of (play 2 ?l)"
  have pl: "failure (play 2 ?l) = None"
    by (simp add: run_simps)
  have a2: "audioEngine a2 = ?p" "timers a2 = [((\<lambda>k. 1)(Low := 1 / 2), (\<lambda>k. False))]"
    unfolding assms(3) using a1
    by (simp_all add: handlePlayPause_def outcome_case_Returned [OF pl])
  have g: "map_option gain (lowGain ?p) = Some \<lparr>param_value = 1, automation = []\<rparr>"
    using l(1-3) by (rule play_rebuilds)
  show "map_option gain (lowGain (audioEngine a2)) = Some \<lparr>param_value = 1, automation = []\<rparr>"
    using g by (simp add: a2(1))
  have cp: "ctx ?p \<noteq> None" using l(1) by (simp add: play_ctx_None)
  have a3: "audioEngine a3 =
      engine_of (reapply_volumes (41 / 20) ((\<lambda>k. 1)(Low := 1 / 2)) (\<lambda>k. False) ?p)"
    "timers a3 = []"
    unfolding assms(4) using a2 by (simp_all add: timeout_fires_def)
  obtain g0 where g0: "band_gain Low ?p = Some g0" "gain g0 = \<lparr>param_value = 1, automation = []\<rparr>"
    using g by auto
  let ?s1 = "engine_of (setStemVolume (41 / 20) Low (1 / 2) ?p)"
  let ?s2 = "engine_of (setStemVolume (41 / 20) Mid 1 ?s1)"
  let ?s3 = "engine_of (setStemVolume (41 / 20) High 1 ?s2)"
  have r: "float_range (1 / 2)" "float_range 1" by (simp_all add: float_range_def)
  have f: "failure (setStemVolume (41 / 20) Low (1 / 2) ?p) = None"
    "failure (setStemVolume (41 / 20) Mid 1 ?s1) = None"
    "failure (setStemVolume (41 / 20) High 1 ?s2) = None"
    using setStemVolume_returns [OF r(1), of "41 / 20" Low ?p]
      setStemVolume_returns [OF r(2), of "41 / 20" Mid ?s1]
      setStemVolume_returns [OF r(2), of "41 / 20" High ?s2]
    by (metis failure.simps(1))+
  have "reapply_volumes (41 / 20) ((\<lambda>k. 1)(Low := 1 / 2)) (\<lambda>k. False) ?p = Returned ?s3"
    by (simp add: reapply_volumes_def forEach_stem_step f del: forEach_stem.simps(2))
  then have e3: "audioEngine a3 = ?s3" by (simp add: a3(1))
  have "band_gain Low ?s3 = band_gain Low ?s1"
    using setStemVolume_other_band [of High Low "41 / 20" 1 ?s2]
      setStemVolume_other_band [of Mid Low "41 / 20" 1 ?s1]
    by simp
  also have "\<dots> = Some (g0\<lparr>gain := (gain g0)\<lparr>automation := automation (gain g0) @ [(1 / 2, 41 / 20, 1 / 10)]\<rparr>\<rparr>)"
    using cp g0(1) r(1) by (rule setStemVolume_band(2))
  finally show "map_option gain (lowGain (audioEngine a3)) =
           Some \<lparr>param_value = 1, automation = [(1 / 2, 41 / 20, 1 / 10)]\<rparr>"
    using g0(2) by (simp add: e3)
  have p3: "ctx (audioEngine a3) \<noteq> None" "buffer (audioEngine a3) \<noteq> None"
    "isPlaying (audioEngine a3)" "sourceNode (audioEngine a3) \<noteq> None"
    by (simp_all add: e3 run_simps)
  have "audioEngine a4 = engine_of (seek 3 4 (audioEngine a3))" "timers a4 = timers a3"
    unfolding assms(5) by (simp_all add: handleSeek_def)
  then show "timers a4 = []"
    and "map_option gain (lowGain (audioEngine a4)) = Some \<lparr>param_value = 1, automation = []\<rparr>"
    using a3(2)
      play_rebuilds(1) [OF seek_while_playing(3,4,2) [where now = 3 and t = 4, OF p3], where now = 3]
    by (simp_all add: seek_while_playing(1) [OF p3])
qed

end
